theory Spec2Isabelle
  imports Complex_Main "HOL-Library.Char_ord" "HOL-Library.List_Lexorder"
begin

section \<open>Formatters of explanations.py\<close>

text \<open>
  The module \<^verbatim>\<open>explanations.py\<close> turns the result of a linter (a \<^verbatim>\<open>LintResult\<close>
  protocol buffer) into a list of text lines. It is Python 2 code (the \<^verbatim>\<open>__future__\<close>
  imports, and \<^verbatim>\<open>pformat\<close> removing the \<^verbatim>\<open>u\<close> that Python 2 puts before the quote of a
  unicode literal), and the embedding follows Python 2.7:
  \<^item> text (a protocol buffer \<^verbatim>\<open>string\<close> field, of type \<^verbatim>\<open>unicode\<close>) and byte strings
    are lists of 8-bit characters, so the model covers code points below 256;
  \<^item> a \<^verbatim>\<open>float\<close> that the formatters are given is the rational number that is its
    exact value, so that \<^verbatim>\<open>inf\<close>, \<^verbatim>\<open>nan\<close> and the negative zero are no inputs of the model;
    the result of an arithmetic operation is rounded to the nearest binary64 number, is
    an infinity when it overflows, and keeps the sign of a zero;
  \<^item> an exception is a value \<open>Inl e\<close> of the result, and the first one raised wins;
  \<^item> the locale is the C locale, where the presentation type \<^verbatim>\<open>n\<close> of \<^verbatim>\<open>str.format\<close>
    prints what \<^verbatim>\<open>g\<close> prints.
\<close>

datatype pyerror =
  IndexError | ValueError | ZeroDivisionError | AttributeError | UnicodeEncodeError
  | TypeError

subsection \<open>Numbers\<close>

definition pow_int :: "rat \<Rightarrow> int \<Rightarrow> rat" where
  "pow_int b k = (if 0 \<le> k then b ^ nat k else 1 / b ^ nat (- k))"

text \<open>The number of digits of \<open>n\<close> in base \<open>b\<close>.\<close>

function ndigits :: "int \<Rightarrow> int \<Rightarrow> nat" where
  "ndigits b n = (if n \<le> 0 \<or> b < 2 then 0 else Suc (ndigits b (n div b)))"
  by pat_completeness auto
termination
  by (relation "measure (\<lambda>(b, n). nat n)") (auto intro!: int_div_less_self)

declare ndigits.simps [simp del]

text \<open>The exponent of a positive number \<open>a\<close> in base \<open>b\<close>: the \<open>k\<close> with
  \<open>b ^ k \<le> a < b ^ (k + 1)\<close>.\<close>

definition ilog :: "int \<Rightarrow> rat \<Rightarrow> int" where
  "ilog b a = (if 1 \<le> a then int (ndigits b \<lfloor>a\<rfloor>) - 1
               else - int (ndigits b (\<lceil>1 / a\<rceil> - 1)))"

definition round_half_even :: "rat \<Rightarrow> int" where
  "round_half_even x = (let f = \<lfloor>x\<rfloor>; r = x - of_int f in
     if r < 1 / 2 then f else if 1 / 2 < r then f + 1 else if even f then f else f + 1)"

text \<open>Rounding to the grid of the binary64 numbers, ties to even: 53 bits of mantissa,
  and a binary exponent that is at least \<open>-1022\<close>, below which the numbers are subnormal
  and the grid stays at \<open>2 ^ -1074\<close>.\<close>

definition fl_round :: "rat \<Rightarrow> rat" where
  "fl_round x = (if x = 0 then 0 else
     let u = pow_int 2 (max (ilog 2 \<bar>x\<bar>) (- 1022) - 52)
     in sgn x * of_int (round_half_even (\<bar>x\<bar> / u)) * u)"

text \<open>The result of an arithmetic operation on floats: a number, the negative zero, or
  an infinity. The operations of the module, on the inputs of the model, give no
  \<^verbatim>\<open>nan\<close>.\<close>

datatype fl = Fin rat | NegZero | PosInf | NegInf

text \<open>A real number that is not zero, as a binary64 number: a rounded number of
  \<open>2 ^ 1024\<close> or more is an infinity, and a number that is rounded to zero keeps its
  sign.\<close>

definition to_binary64 :: "rat \<Rightarrow> fl" where
  "to_binary64 x =
     (let y = fl_round x
      in if 2 ^ 1024 \<le> \<bar>y\<bar> then (if x < 0 then NegInf else PosInf)
         else if y = 0 \<and> x < 0 then NegZero
         else Fin y)"

text \<open>The quotient of two floats, the second not zero: a zero divided by a negative
  number is the negative zero.\<close>

definition fl_div :: "rat \<Rightarrow> rat \<Rightarrow> fl" where
  "fl_div a b = (if a = 0 then (if b < 0 then NegZero else Fin 0) else to_binary64 (a / b))"

text \<open>\<^verbatim>\<open>a / b\<close> under \<^verbatim>\<open>from __future__ import division\<close>: a division by zero raises.\<close>

definition py_truediv :: "rat \<Rightarrow> rat \<Rightarrow> pyerror + fl" where
  "py_truediv a b = (if b = 0 then Inl ZeroDivisionError else Inr (fl_div a b))"

text \<open>\<^verbatim>\<open>q * 100\<close> for the result \<open>q\<close> of a division.\<close>

fun times_100 :: "fl \<Rightarrow> fl" where
  "times_100 (Fin q) = (if q = 0 then Fin 0 else to_binary64 (q * 100))"
| "times_100 NegZero = NegZero"
| "times_100 PosInf = PosInf"
| "times_100 NegInf = NegInf"

text \<open>\<^verbatim>\<open>x >= r\<close> and \<^verbatim>\<open>x < r\<close> for such a result and a number.\<close>

fun fl_ge :: "fl \<Rightarrow> rat \<Rightarrow> bool" where
  "fl_ge (Fin x) r = (r \<le> x)"
| "fl_ge NegZero r = (r \<le> 0)"
| "fl_ge PosInf r = True"
| "fl_ge NegInf r = False"

fun fl_less :: "fl \<Rightarrow> rat \<Rightarrow> bool" where
  "fl_less (Fin x) r = (x < r)"
| "fl_less NegZero r = (0 < r)"
| "fl_less PosInf r = False"
| "fl_less NegInf r = True"

function str_int :: "int \<Rightarrow> string" where
  "str_int n = (if n < 0 then CHR ''-'' # str_int (- n)
                else if n < 10 then [''0123456789'' ! nat n]
                else str_int (n div 10) @ [''0123456789'' ! nat (n mod 10)])"
  by pat_completeness auto
termination
  by (relation "measure (\<lambda>n. if n < 0 then nat (1 - n) else nat n)") auto

declare str_int.simps [simp del]

definition rstrip0 :: "string \<Rightarrow> string" where
  "rstrip0 s = rev (dropWhile (\<lambda>c. c = CHR ''0'') (rev s))"

text \<open>A positive number rounded to \<open>p\<close> significant digits: the digits, as an integer of
  \<open>p\<close> digits, and the decimal exponent of the rounded number.\<close>

definition sig_round :: "nat \<Rightarrow> rat \<Rightarrow> int \<times> int" where
  "sig_round p a = (let e = ilog 10 a; m = round_half_even (a / pow_int 10 (e - int p + 1))
                    in if m = 10 ^ p then (10 ^ (p - 1), e + 1) else (m, e))"

definition exp_digits :: "int \<Rightarrow> string" where
  "exp_digits X = (if X < 0 then ''-'' else ''+'') @
                  (if \<bar>X\<bar> < 10 then ''0'' else '''') @ str_int \<bar>X\<bar>"

text \<open>Digits \<open>ds\<close> of a number with decimal exponent \<open>X\<close>, written without and with an
  exponent, the way \<^verbatim>\<open>g\<close> and \<^verbatim>\<open>repr\<close> do (no trailing zeros).\<close>

definition fixed_digits :: "string \<Rightarrow> int \<Rightarrow> string" where
  "fixed_digits ds X =
     (if 0 \<le> X then
        let n = nat X + 1; fp = rstrip0 (drop n ds)
        in take n (ds @ replicate n (CHR ''0'')) @ (if fp = [] then [] else ''.'' @ fp)
      else ''0.'' @ rstrip0 (replicate (nat (- X - 1)) (CHR ''0'') @ ds))"

definition sci_digits :: "string \<Rightarrow> int \<Rightarrow> string" where
  "sci_digits ds X =
     (let fp = rstrip0 (tl ds)
      in [hd ds] @ (if fp = [] then [] else ''.'' @ fp) @ ''e'' @ exp_digits X)"

text \<open>\<^verbatim>\<open>'{:.<prec>n}'.format(x)\<close> for a float \<open>x\<close>: \<open>prec\<close> significant digits, in fixed
  notation when the exponent is at least \<open>-4\<close> and below the precision.\<close>

definition format_g :: "nat \<Rightarrow> rat \<Rightarrow> string" where
  "format_g prec x =
     (if x = 0 then ''0'' else
      let p = max 1 prec; (m, X) = sig_round p \<bar>x\<bar>; ds = str_int m
      in (if x < 0 then ''-'' else '''') @
         (if - 4 \<le> X \<and> X < int p then fixed_digits ds X else sci_digits ds X))"

text \<open>The same for the result of an arithmetic operation.\<close>

fun format_fl :: "nat \<Rightarrow> fl \<Rightarrow> string" where
  "format_fl prec (Fin x) = format_g prec x"
| "format_fl prec NegZero = ''-0''"
| "format_fl prec PosInf = ''inf''"
| "format_fl prec NegInf = ''-inf''"

text \<open>\<^verbatim>\<open>'{:.0f}'.format(x)\<close>.\<close>

definition format_f0 :: "rat \<Rightarrow> string" where
  "format_f0 x = (if x < 0 then ''-'' else '''') @ str_int (round_half_even \<bar>x\<bar>)"

text \<open>\<^verbatim>\<open>repr(x)\<close> of a float: the shortest digit string that reads back as \<open>x\<close>, and the
  nearest to \<open>x\<close> among these; 17 digits always do.\<close>

fun shortest_digits :: "nat \<Rightarrow> nat \<Rightarrow> rat \<Rightarrow> int \<times> int" where
  "shortest_digits 0 p a = sig_round p a"
| "shortest_digits (Suc k) p a =
     (let e = ilog 10 a; s = pow_int 10 (e - int p + 1);
          lo = \<lfloor>a / s\<rfloor>; hi = \<lceil>a / s\<rceil>;
          oklo = (fl_round (of_int lo * s) = a); okhi = (fl_round (of_int hi * s) = a);
          m = (if oklo \<and> okhi then round_half_even (a / s) else if oklo then lo else hi)
      in if oklo \<or> okhi then (if m = 10 ^ p then (10 ^ (p - 1), e + 1) else (m, e))
         else shortest_digits k (Suc p) a)"

definition repr_float :: "rat \<Rightarrow> string" where
  "repr_float x =
     (if x = 0 then ''0.0'' else
      let (m, X) = shortest_digits 16 1 \<bar>x\<bar>; ds = rstrip0 (str_int m)
      in (if x < 0 then ''-'' else '''') @
         (if - 4 \<le> X \<and> X < 16
          then (let t = fixed_digits ds X in if CHR ''.'' \<in> set t then t else t @ ''.0'')
          else sci_digits ds X))"

subsection \<open>Strings\<close>

definition squote :: char where "squote = CHR 0x27"
definition dquote :: char where "dquote = CHR 0x22"
definition backslash :: char where "backslash = CHR 0x5C"
definition newline :: char where "newline = CHR 0x0A"

definition is_ascii :: "string \<Rightarrow> bool" where
  "is_ascii s = list_all (\<lambda>c. (of_char c :: nat) < 128) s"

text \<open>What Python 2 does with a \<^verbatim>\<open>unicode\<close> argument of \<^verbatim>\<open>str.format\<close>, and with
  the name given to \<^verbatim>\<open>getattr\<close>: it encodes the text with the ASCII codec.\<close>

definition encode_ascii :: "string \<Rightarrow> pyerror + string" where
  "encode_ascii s = (if is_ascii s then Inr s else Inl UnicodeEncodeError)"

definition hex2 :: "char \<Rightarrow> string" where
  "hex2 c = (let n = (of_char c :: nat)
             in [''0123456789abcdef'' ! (n div 16), ''0123456789abcdef'' ! (n mod 16)])"

definition repr_char :: "char \<Rightarrow> char \<Rightarrow> string" where
  "repr_char q c =
     (if c = q \<or> c = backslash then [backslash, c]
      else if c = CHR 0x09 then [backslash, CHR ''t'']
      else if c = CHR 0x0A then [backslash, CHR ''n'']
      else if c = CHR 0x0D then [backslash, CHR ''r'']
      else if (of_char c :: nat) < 32 \<or> 127 \<le> (of_char c :: nat)
        then [backslash, CHR ''x''] @ hex2 c
      else [c])"

text \<open>\<^verbatim>\<open>repr\<close> of a byte string: between single quotes, unless the string has a single
  quote and no double quote.\<close>

definition repr_str :: "string \<Rightarrow> string" where
  "repr_str s =
     (let q = (if squote \<in> set s \<and> dquote \<notin> set s then dquote else squote)
      in [q] @ concat (map (repr_char q) s) @ [q])"

fun join :: "string \<Rightarrow> string list \<Rightarrow> string" where
  "join sep [] = []"
| "join sep [x] = x"
| "join sep (x # y # ys) = x @ sep @ join sep (y # ys)"

text \<open>\<^verbatim>\<open>s.split(sep)\<close> for a separator of one character.\<close>

fun split :: "char \<Rightarrow> string \<Rightarrow> string list" where
  "split sep [] = [[]]"
| "split sep (c # s) =
     (if c = sep then [] # split sep s
      else (case split sep s of [] \<Rightarrow> [[c]] | p # ps \<Rightarrow> (c # p) # ps))"

text \<open>\<^verbatim>\<open>s.strip(ch)\<close> for a set of one character.\<close>

definition strip :: "char \<Rightarrow> string \<Rightarrow> string" where
  "strip ch s = rev (dropWhile (\<lambda>c. c = ch) (rev (dropWhile (\<lambda>c. c = ch) s)))"

text \<open>\<^verbatim>\<open>s.center(width)\<close>: the padding is spaces, and the left side gets the extra
  space when the padding is odd and the width is odd.\<close>

definition center :: "string \<Rightarrow> nat \<Rightarrow> string" where
  "center s width =
     (if width \<le> length s then s
      else let marg = width - length s;
               left = marg div 2 + (if odd marg \<and> odd width then 1 else 0)
           in replicate left (CHR '' '') @ s @ replicate (marg - left) (CHR '' ''))"

text \<open>\<^verbatim>\<open>pydoc.cram(text, maxlen)\<close>:
  \<^verbatim>\<open>
  if len(text) > maxlen:
      pre = max(0, (maxlen-3)//2)
      post = max(0, maxlen-3-pre)
      return text[:pre] + '...' + text[len(text)-post:]
  return text
  \<close>
  The subtractions on \<open>nat\<close> stop at 0, as the two \<^verbatim>\<open>max(0, _)\<close> do.\<close>

definition cram :: "string \<Rightarrow> nat \<Rightarrow> string" where
  "cram text maxlen =
     (if maxlen < length text then
        let pre = (maxlen - 3) div 2; post = maxlen - 3 - pre
        in take pre text @ ''...'' @ drop (length text - post) text
      else text)"

text \<open>\<^verbatim>\<open>re.sub(r'u(["\'])', r'\1', pstr)\<close>: every \<^verbatim>\<open>u\<close> that stands before a quote
  goes.\<close>

fun re_sub_u :: "string \<Rightarrow> string" where
  "re_sub_u (c # d # s) =
     (if c = CHR ''u'' \<and> (d = dquote \<or> d = squote) then d # re_sub_u s
      else c # re_sub_u (d # s))"
| "re_sub_u s = s"

text \<open>Running a function that may raise over a list, left to right.\<close>

fun traverse :: "('a \<Rightarrow> pyerror + 'b) \<Rightarrow> 'a list \<Rightarrow> pyerror + 'b list" where
  "traverse f [] = Inr []"
| "traverse f (x # xs) =
     (case f x of Inl e \<Rightarrow> Inl e
      | Inr y \<Rightarrow> (case traverse f xs of Inl e \<Rightarrow> Inl e | Inr ys \<Rightarrow> Inr (y # ys)))"

subsection \<open>Values and the records of a lint result\<close>

text \<open>The Python objects that reach \<^verbatim>\<open>pformat\<close>, \<^verbatim>\<open>str.format\<close> and \<^verbatim>\<open>float\<close>: text, byte
  strings, numbers of the types \<^verbatim>\<open>int\<close>, \<^verbatim>\<open>long\<close> and \<^verbatim>\<open>float\<close>, the repeated fields of a
  protocol buffer, and any other object (a method, say), given by its \<^verbatim>\<open>repr\<close>.\<close>

datatype pyobj =
  PyUnicode string | PyStr string | PyInt int | PyLong int | PyFloat rat
  | PyList "pyobj list" | PyObject string

fun repr :: "pyobj \<Rightarrow> string" where
  "repr (PyUnicode s) = CHR ''u'' # repr_str s"
| "repr (PyStr s) = repr_str s"
| "repr (PyInt i) = str_int i"
| "repr (PyLong i) = str_int i @ ''L''"
| "repr (PyObject r) = r"
| "repr (PyFloat x) = repr_float x"
| "repr (PyList xs) = ''['' @ join '', '' (map repr xs) @ '']''"

text \<open>Modelled from the spec: the statistics message, whose declaration is not part of
  the module. Its fields are named numeric summaries and an identifier that names which
  are populated. The formatters read \<^verbatim>\<open>count\<close>, \<^verbatim>\<open>min\<close>, \<^verbatim>\<open>max\<close>, \<^verbatim>\<open>mean\<close>, \<^verbatim>\<open>std_dev\<close> and
  \<^verbatim>\<open>id\<close> by name; every other attribute of the message is in \<open>others\<close>, under its name:
  a further numeric field, or an object that is neither a number nor text (a method of
  the message class, its descriptor), given by its \<^verbatim>\<open>repr\<close>.\<close>

datatype attr = NumberAttr rat | ObjectAttr string

record stat =
  id' :: string
  mean :: rat
  std_dev :: rat
  min' :: rat
  max' :: rat
  count :: rat
  others :: "string \<Rightarrow> attr option"

text \<open>Modelled from the spec: the value of a feature of an example, a tagged list of
  values (a \<^verbatim>\<open>tf.train.Feature\<close>, declared outside the module): the \<^verbatim>\<open>kind\<close> that is set,
  if any, with its values. Under Python 2 the values of a \<^verbatim>\<open>bytes_list\<close> are of type
  \<^verbatim>\<open>str\<close> and those of an \<^verbatim>\<open>int64_list\<close> of type \<^verbatim>\<open>long\<close>.\<close>

datatype feature =
  NoKind | BytesList "string list" | FloatList "rat list" | Int64List "int list"

text \<open>Modelled from the spec: an example is a mapping from the name of a feature to
  its values (the map \<^verbatim>\<open>features.feature\<close>), here an association list; a sample holds
  sequences of strings, of numbers (floats), of statistics records and of examples; a
  lint result holds the sequence of its warnings and the sequence of its samples.\<close>

type_synonym example = "(string \<times> feature) list"

record lint_sample =
  strings :: "string list"
  nums :: "rat list"
  stats :: "stat list"
  examples :: "example list"

record lint_result =
  warnings :: "string list"
  lint_samples :: "lint_sample list"

text \<open>\<^verbatim>\<open>getattr(stats, name)\<close>, on the statistics message as modelled above: the six
  fields, then the other attributes, and \<^verbatim>\<open>AttributeError\<close> for a name that is none.\<close>

definition getattr :: "stat \<Rightarrow> string \<Rightarrow> pyerror + pyobj" where
  "getattr s name =
     (if \<not> is_ascii name then Inl UnicodeEncodeError
      else if name = ''id'' then Inr (PyUnicode (id' s))
      else if name = ''mean'' then Inr (PyFloat (mean s))
      else if name = ''std_dev'' then Inr (PyFloat (std_dev s))
      else if name = ''min'' then Inr (PyFloat (min' s))
      else if name = ''max'' then Inr (PyFloat (max' s))
      else if name = ''count'' then Inr (PyFloat (count s))
      else (case others s name of
              None \<Rightarrow> Inl AttributeError
            | Some (NumberAttr x) \<Rightarrow> Inr (PyFloat x)
            | Some (ObjectAttr r) \<Rightarrow> Inr (PyObject r)))"

text \<open>\<^verbatim>\<open>'{:.<prec>n}'.format(obj)\<close>: a precision is refused for an \<^verbatim>\<open>int\<close> and a \<^verbatim>\<open>long\<close>;
  text refuses the presentation type \<^verbatim>\<open>n\<close>, and so does any other object, which Python 2
  formats as the text \<^verbatim>\<open>str(obj)\<close>. All of these raise \<^verbatim>\<open>ValueError\<close>.\<close>

fun format_n :: "nat \<Rightarrow> pyobj \<Rightarrow> pyerror + string" where
  "format_n prec (PyFloat x) = Inr (format_g prec x)"
| "format_n prec obj = Inl ValueError"

subsection \<open>Constants\<close>

definition MAX_WIDTH :: int where "MAX_WIDTH = 80"
definition MAX_LEN :: nat where "MAX_LEN = 30"
definition FLAG_PREAMBLE :: string where "FLAG_PREAMBLE = ''Flagged features:''"
definition FLAG_SAMPS_PREAMBLE :: string where
  "FLAG_SAMPS_PREAMBLE = ''Flagged features (and sample values):''"
definition LI :: "string \<Rightarrow> string" where "LI s = ''* '' @ s"
definition LI_SAMP :: "string \<Rightarrow> string \<Rightarrow> string" where
  "LI_SAMP w s = LI w @ '': '' @ s"
definition COLSEP :: string where "COLSEP = '' | ''"
definition BORDER_SZ :: nat where "BORDER_SZ = length (''| '' @ '' '' @ '' |'')"
definition PCT_FMT :: "fl \<Rightarrow> string" where "PCT_FMT x = format_fl 3 x @ ''%''"

text \<open>\<^verbatim>\<open>ULL_WFMT.format(*args)\<close> has five fields: fewer arguments raise, more are
  ignored.\<close>

definition ULL_WFMT :: "string list \<Rightarrow> pyerror + string" where
  "ULL_WFMT args =
     (case args of
        a # b # c # d # e # _ \<Rightarrow>
          Inr (LI a @ '': '' @ b @ '' had length '' @ c @ '' but '' @ d @ '' had '' @ e @ ''.'')
      | _ \<Rightarrow> Inl IndexError)"

definition NFNR_PREAMBLE :: "rat \<Rightarrow> rat \<Rightarrow> string" where
  "NFNR_PREAMBLE m sd =
     ''A '' @ [squote] @ ''typical'' @ [squote] @ '' numeric feature in the dataset has mean ''
     @ format_g 3 m @ '' and std dev '' @ format_g 5 sd @ '' but''"

definition NFNR_WFMT :: "string \<Rightarrow> string \<Rightarrow> string" where
  "NFNR_WFMT w s = LI w @ '' had '' @ s"

definition NFNR_STATFMT :: "string \<Rightarrow> pyobj \<Rightarrow> pyerror + string" where
  "NFNR_STATFMT name v =
     (case encode_ascii name of Inl e \<Rightarrow> Inl e
      | Inr n \<Rightarrow> (case format_n 5 v of Inl e \<Rightarrow> Inl e | Inr t \<Rightarrow> Inr (n @ '' = '' @ t)))"

definition DD_PREAMBLE :: "string \<Rightarrow> nat \<Rightarrow> pyerror + string" where
  "DD_PREAMBLE w n =
     (case encode_ascii w of Inl e \<Rightarrow> Inl e
      | Inr t \<Rightarrow> Inr (''Found '' @ t @ '' exact duplicate examples, '' @ str_int (int n)
                       @ '' of which are shown below.''))"

definition DD_MAX_VAL_LEN :: nat where "DD_MAX_VAL_LEN = 20"
definition DD_MAX_COLS :: nat where "DD_MAX_COLS = 30"
definition USD_PREAMBLE :: string where
  "USD_PREAMBLE = ''Flagged features and prevalence of uncommon sign(s):''"

definition USD_WFMT :: "string \<Rightarrow> string \<Rightarrow> pyerror + string" where
  "USD_WFMT sign_str pct_str =
     (case encode_ascii sign_str of Inl e \<Rightarrow> Inl e
      | Inr t \<Rightarrow> Inr (t @ '' occurred '' @ pct_str @ '' of the time''))"

definition TDD_PREAMBLE :: string where
  "TDD_PREAMBLE = ''Flagged features and outlying extrema:''"

definition TDD_WFMT :: "string \<Rightarrow> rat \<Rightarrow> pyerror + string" where
  "TDD_WFMT e ev =
     (case encode_ascii e of Inl err \<Rightarrow> Inl err
      | Inr t \<Rightarrow> Inr (t @ '' value of '' @ format_g 3 ev))"

subsection \<open>The pretty-printer\<close>

text \<open>
  \<^verbatim>\<open>
  def pformat(obj, max_len=MAX_LEN, quote=True):
    if hasattr(obj, '__len__') and len(obj) == 1:
      obj = obj[0]
    if isinstance(obj, (int, float)):
      pstr = '{:.4n}'.format(obj)
    else:
      pstr = pprint.pformat(obj)
    pstr = re.sub(r'u(["\'])', r'\1', pstr)
    if not quote:
      pstr = pstr.strip("'").strip('"')
    pstr = pydoc.cram(pstr, max_len)
    return pstr
  \<close>
  The first element of a string of one character is the string itself. On the objects
  of this module (text, byte strings and repeated fields, which are no \<^verbatim>\<open>list\<close>)
  \<^verbatim>\<open>pprint.pformat\<close> is \<^verbatim>\<open>repr\<close>.\<close>

definition unwrap :: "pyobj \<Rightarrow> pyobj" where
  "unwrap obj = (case obj of PyList [x] \<Rightarrow> x | _ \<Rightarrow> obj)"

definition is_number :: "pyobj \<Rightarrow> bool" where
  "is_number obj = (case obj of PyInt _ \<Rightarrow> True | PyFloat _ \<Rightarrow> True | _ \<Rightarrow> False)"

definition pformat :: "pyobj \<Rightarrow> nat \<Rightarrow> bool \<Rightarrow> pyerror + string" where
  "pformat obj max_len quote =
     (let obj = unwrap obj
      in case (if is_number obj then format_n 4 obj else Inr (repr obj)) of
           Inl e \<Rightarrow> Inl e
         | Inr pstr \<Rightarrow>
             (let pstr = re_sub_u pstr;
                  pstr = (if \<not> quote then strip dquote (strip squote pstr) else pstr)
              in Inr (cram pstr max_len)))"

subsection \<open>The generic formatter and the formatter of EnumDetector\<close>

text \<open>
  \<^verbatim>\<open>
  def _format_warning_sample_pair(warning, sample, quote_vals=True):
    wstr = pformat(warning, quote=False)
    samp_vals = sample.strings or sample.nums
    samp_str = ', '.join([pformat(v, quote=quote_vals) for v in samp_vals])
    return LI_SAMP.format(wstr, samp_str if samp_vals else wstr)
  \<close>\<close>

definition format_warning_sample_pair ::
    "string \<Rightarrow> lint_sample \<Rightarrow> bool \<Rightarrow> pyerror + string" where
  "format_warning_sample_pair warning sample quote_vals =
     (case pformat (PyUnicode warning) MAX_LEN False of
        Inl e \<Rightarrow> Inl e
      | Inr wstr \<Rightarrow>
          (let samp_vals = (if strings sample \<noteq> [] then map PyUnicode (strings sample)
                            else map PyFloat (nums sample))
           in case traverse (\<lambda>v. pformat v MAX_LEN quote_vals) samp_vals of
                Inl e \<Rightarrow> Inl e
              | Inr vs \<Rightarrow>
                  Inr (LI_SAMP wstr (if samp_vals \<noteq> [] then join '', '' vs else wstr))))"

text \<open>The loop that five formatters share:
  \<^verbatim>\<open>
  for warning, samp in zip(result.warnings, result.lint_samples):
    if warning in suppress:
      continue
    lines.append(<body>)
  \<close>
  It returns the lines appended.\<close>

fun warning_lines ::
    "(string \<Rightarrow> lint_sample \<Rightarrow> pyerror + string) \<Rightarrow> string set
      \<Rightarrow> (string \<times> lint_sample) list \<Rightarrow> pyerror + string list" where
  "warning_lines body suppress [] = Inr []"
| "warning_lines body suppress ((warning, samp) # rest) =
     (if warning \<in> suppress then warning_lines body suppress rest
      else case body warning samp of
             Inl e \<Rightarrow> Inl e
           | Inr l \<Rightarrow> (case warning_lines body suppress rest of
                         Inl e \<Rightarrow> Inl e | Inr ls \<Rightarrow> Inr (l # ls)))"

definition with_preamble :: "string \<Rightarrow> pyerror + string list \<Rightarrow> pyerror + string list" where
  "with_preamble p r = (case r of Inl e \<Rightarrow> Inl e | Inr ls \<Rightarrow> Inr (p # ls))"

text \<open>
  \<^verbatim>\<open>
  def _format_warnings(result, suppress=frozenset(), max_width=MAX_WIDTH):
    if result.lint_samples:
      lines = [FLAG_SAMPS_PREAMBLE]
      for warning, samp in zip(result.warnings, result.lint_samples):
        if warning in suppress:
          continue
        lines.append(_format_warning_sample_pair(warning, samp))
    else:
      wstrs = [LI.format(pformat(w)) for w in result.warnings]
      lines = [FLAG_PREAMBLE, '\n'.join(wstrs)]
    return lines
  \<close>\<close>

definition format_warnings ::
    "lint_result \<Rightarrow> string set \<Rightarrow> int \<Rightarrow> pyerror + string list" where
  "format_warnings result suppress max_width =
     (if lint_samples result \<noteq> [] then
        with_preamble FLAG_SAMPS_PREAMBLE
          (warning_lines (\<lambda>warning samp. format_warning_sample_pair warning samp True)
             suppress (zip (warnings result) (lint_samples result)))
      else
        (case traverse (\<lambda>w. pformat (PyUnicode w) MAX_LEN True) (warnings result) of
           Inl e \<Rightarrow> Inl e
         | Inr ws \<Rightarrow> Inr [FLAG_PREAMBLE, join [newline] (map LI ws)]))"

definition format_warnings_de ::
    "lint_result \<Rightarrow> string set \<Rightarrow> int \<Rightarrow> pyerror + string list" where
  "format_warnings_de result suppress max_width =
     with_preamble FLAG_SAMPS_PREAMBLE
       (warning_lines (\<lambda>warning samp. format_warning_sample_pair warning samp False)
          suppress (zip (warnings result) (lint_samples result)))"

subsection \<open>The formatter of UncommonListLengthDetector\<close>

text \<open>
  \<^verbatim>\<open>
    n_egs = sample.nums[0]
    bucket_pcts = [PCT_FMT.format(bucket.count / n_egs * 100)
                   for bucket in sample.stats]
    bucket_bounds = [' to '.join(map('{:.0f}'.format,
                                     sorted({bucket.min, bucket.max})))
                     for bucket in sample.stats]
    pct_bounds = map(list, zip(bucket_pcts, bucket_bounds))
    lines.append(ULL_WFMT.format(pformat(warning, quote=False),
                                 *sum(pct_bounds, [])))
  \<close>\<close>

definition bucket_pct :: "rat \<Rightarrow> stat \<Rightarrow> pyerror + string" where
  "bucket_pct n_egs bucket =
     (case py_truediv (count bucket) n_egs of
        Inl e \<Rightarrow> Inl e | Inr q \<Rightarrow> Inr (PCT_FMT (times_100 q)))"

definition bucket_bound :: "stat \<Rightarrow> string" where
  "bucket_bound bucket =
     join '' to '' (map format_f0
       (if min' bucket = max' bucket then [min' bucket]
        else [min (min' bucket) (max' bucket), max (min' bucket) (max' bucket)]))"

definition llo_line :: "string \<Rightarrow> lint_sample \<Rightarrow> pyerror + string" where
  "llo_line warning sample =
     (case nums sample of
        [] \<Rightarrow> Inl IndexError
      | n_egs # _ \<Rightarrow>
          (case traverse (bucket_pct n_egs) (stats sample) of
             Inl e \<Rightarrow> Inl e
           | Inr bucket_pcts \<Rightarrow>
               (let bucket_bounds = map bucket_bound (stats sample);
                    pct_bounds = map (\<lambda>(p, b). [p, b]) (zip bucket_pcts bucket_bounds)
                in case pformat (PyUnicode warning) MAX_LEN False of
                     Inl e \<Rightarrow> Inl e
                   | Inr wstr \<Rightarrow> ULL_WFMT (wstr # concat pct_bounds))))"

definition format_warnings_llo ::
    "lint_result \<Rightarrow> string set \<Rightarrow> int \<Rightarrow> pyerror + string list" where
  "format_warnings_llo result suppress max_width =
     with_preamble FLAG_PREAMBLE
       (warning_lines llo_line suppress (zip (warnings result) (lint_samples result)))"

subsection \<open>The formatter of EmptyExampleDetector\<close>

text \<open>\<^verbatim>\<open>return ['Found {} empty examples.'.format(result.warnings[0])]\<close>\<close>

definition format_warnings_dee ::
    "lint_result \<Rightarrow> string set \<Rightarrow> int \<Rightarrow> pyerror + string list" where
  "format_warnings_dee result suppress max_width =
     (case warnings result of
        [] \<Rightarrow> Inl IndexError
      | w # _ \<Rightarrow> (case encode_ascii w of
                    Inl e \<Rightarrow> Inl e
                  | Inr t \<Rightarrow> Inr [''Found '' @ t @ '' empty examples.'']))"

subsection \<open>The formatter of NonNormalNumericFeatureDetector\<close>

text \<open>
  \<^verbatim>\<open>
  ds_stats = result.lint_samples[0].stats[0]
  lines = [NFNR_PREAMBLE.format(ds_stats.mean, ds_stats.std_dev)]
  for warning, sample in zip(result.warnings, result.lint_samples[1:]):
    warned_feature, warning_stats = warning.split(':')
    warned_stats = warning_stats.split(',')
    if warned_feature in suppress:
      continue
    stats = sample.stats[0]
    stats_warnings = [
        NFNR_STATFMT.format(warned_stat, getattr(stats, warned_stat))
        for warned_stat in warned_stats]
    lines.append(NFNR_WFMT.format(pformat(warned_feature, quote=False),
                                  ', '.join(stats_warnings)))
  return lines
  \<close>
  Unpacking the result of \<^verbatim>\<open>split\<close> into two names raises \<^verbatim>\<open>ValueError\<close> unless
  there are exactly two parts.\<close>

definition nfnr_stat_warning :: "stat \<Rightarrow> string \<Rightarrow> pyerror + string" where
  "nfnr_stat_warning st warned_stat =
     (case getattr st warned_stat of
        Inl e \<Rightarrow> Inl e | Inr v \<Rightarrow> NFNR_STATFMT warned_stat v)"

definition nfnr_line :: "string \<Rightarrow> string list \<Rightarrow> lint_sample \<Rightarrow> pyerror + string" where
  "nfnr_line warned_feature warned_stats sample =
     (case stats sample of
        [] \<Rightarrow> Inl IndexError
      | st # _ \<Rightarrow>
          (case traverse (nfnr_stat_warning st) warned_stats of
             Inl e \<Rightarrow> Inl e
           | Inr stats_warnings \<Rightarrow>
               (case pformat (PyUnicode warned_feature) MAX_LEN False of
                  Inl e \<Rightarrow> Inl e
                | Inr wstr \<Rightarrow> Inr (NFNR_WFMT wstr (join '', '' stats_warnings)))))"

fun nfnr_lines ::
    "string set \<Rightarrow> (string \<times> lint_sample) list \<Rightarrow> pyerror + string list" where
  "nfnr_lines suppress [] = Inr []"
| "nfnr_lines suppress ((warning, sample) # rest) =
     (case split (CHR '':'') warning of
        [warned_feature, warning_stats] \<Rightarrow>
          (let warned_stats = split (CHR '','') warning_stats
           in if warned_feature \<in> suppress then nfnr_lines suppress rest
              else case nfnr_line warned_feature warned_stats sample of
                     Inl e \<Rightarrow> Inl e
                   | Inr l \<Rightarrow> (case nfnr_lines suppress rest of
                                 Inl e \<Rightarrow> Inl e | Inr ls \<Rightarrow> Inr (l # ls)))
      | _ \<Rightarrow> Inl ValueError)"

definition format_warnings_nfnr ::
    "lint_result \<Rightarrow> string set \<Rightarrow> int \<Rightarrow> pyerror + string list" where
  "format_warnings_nfnr result suppress max_width =
     (case lint_samples result of
        [] \<Rightarrow> Inl IndexError
      | s0 # samples \<Rightarrow>
          (case stats s0 of
             [] \<Rightarrow> Inl IndexError
           | ds_stats # _ \<Rightarrow>
               with_preamble (NFNR_PREAMBLE (mean ds_stats) (std_dev ds_stats))
                 (nfnr_lines suppress (zip (warnings result) samples))))"

subsection \<open>The formatter of DuplicateExampleDetector\<close>

text \<open>The cell of an example in a column:
  \<^verbatim>\<open>
      feature = eg.features.feature.get(col)
      if not feature:
        col_vals[col].append('')
        continue
      kind = feature.WhichOneof('kind')
      if kind is None:
        col_vals[col].append('')
        continue
      vals = getattr(feature, kind).value
      if not vals:
        col_vals[col].append('')
        continue
      val_str = pformat(vals, max_len=DD_MAX_VAL_LEN)
      col_vals[col].append(val_str)
  \<close>\<close>

definition feature_vals :: "feature \<Rightarrow> pyobj list option" where
  "feature_vals f =
     (case f of
        NoKind \<Rightarrow> None
      | BytesList vs \<Rightarrow> Some (map PyStr vs)
      | FloatList vs \<Rightarrow> Some (map PyFloat vs)
      | Int64List vs \<Rightarrow> Some (map PyLong vs))"

definition dd_cell :: "example \<Rightarrow> string \<Rightarrow> pyerror + string" where
  "dd_cell eg col =
     (case map_of eg col of
        None \<Rightarrow> Inr []
      | Some feature \<Rightarrow>
          (case feature_vals feature of
             None \<Rightarrow> Inr []
           | Some vals \<Rightarrow>
               if vals = [] then Inr [] else pformat (PyList vals) DD_MAX_VAL_LEN True))"

text \<open>The three ways in which an example has no value for a column: the feature is not
  in the example, no kind is set, or the list of values is empty.\<close>

definition no_values :: "example \<Rightarrow> string \<Rightarrow> bool" where
  "no_values eg col =
     (case map_of eg col of
        None \<Rightarrow> True
      | Some feature \<Rightarrow>
          (case feature_vals feature of None \<Rightarrow> True | Some vals \<Rightarrow> vals = []))"

text \<open>The width of a column starts at
  \<^verbatim>\<open>min(len(col), DD_MAX_VAL_LEN - BORDER_SZ)\<close> and every cell that is printed raises it:
  \<^verbatim>\<open>col_widths[col] = max(col_widths[col], min(len(val_str), DD_MAX_VAL_LEN))\<close>.
  An empty cell, which the loop skips, would not change it.\<close>

definition col_width :: "string \<Rightarrow> string list \<Rightarrow> nat" where
  "col_width col vals =
     foldl (\<lambda>w val_str. max w (min (length val_str) DD_MAX_VAL_LEN))
       (min (length col) (DD_MAX_VAL_LEN - BORDER_SZ)) vals"

record column =
  col_name :: string
  col_w :: nat
  col_cells :: "string list"

text \<open>
  \<^verbatim>\<open>
  col_groups = [[]]
  tot_width = 0
  for col in cols:
    colwidth = col_widths[col] + BORDER_SZ
    if tot_width + colwidth >= max_width:
      col_groups.append([col])
      tot_width = 0
    else:
      col_groups[-1].append(col)
      tot_width += colwidth
  \<close>\<close>

definition add_col ::
    "int \<Rightarrow> column list list \<times> int \<Rightarrow> column \<Rightarrow> column list list \<times> int" where
  "add_col max_width st col =
     (let (col_groups, tot_width) = st; colwidth = int (col_w col) + int BORDER_SZ
      in if max_width \<le> tot_width + colwidth then (col_groups @ [[col]], 0)
         else (butlast col_groups @ [last col_groups @ [col]], tot_width + colwidth))"

definition group_cols :: "int \<Rightarrow> column list \<Rightarrow> column list list" where
  "group_cols max_width cols = fst (foldl (add_col max_width) ([[]], 0) cols)"

text \<open>
  \<^verbatim>\<open>
    if i == 1:
      borders = '| {} ' + ('|' if len(col_groups) == 1 else '')
    elif i < len(col_groups):
      borders = ' {} '
    else:
      borders = ' {} |'
  \<close>\<close>

definition borders :: "nat \<Rightarrow> nat \<Rightarrow> string \<Rightarrow> string" where
  "borders i n s =
     (if i = 1 then ''| '' @ s @ '' '' @ (if n = 1 then ''|'' else [])
      else if i < n then '' '' @ s @ '' ''
      else '' '' @ s @ '' |'')"

text \<open>
  \<^verbatim>\<open>
    heading = borders.format(
        COLSEP.join(pydoc.cram(c, col_widths[c]).center(col_widths[c])
                    for c in col_group))
    hrule = '-' * len(heading)
    cg_lines = [hrule, heading, hrule]
    for j in range(len(egs)):
      l = borders.format(
          COLSEP.join(col_vals[c][j].center(col_widths[c]) for c in col_group))
      cg_lines.append(l)
    cg_lines.append(hrule)
    col_group_strs.append('\n'.join(cg_lines))
  \<close>
  The names of the columns are text, the cells are byte strings that \<^verbatim>\<open>pformat\<close>
  made.\<close>

definition cg_lines :: "nat \<Rightarrow> nat \<Rightarrow> nat \<Rightarrow> column list \<Rightarrow> pyerror + string list" where
  "cg_lines n_egs n i col_group =
     (case encode_ascii
             (join COLSEP (map (\<lambda>c. center (cram (col_name c) (col_w c)) (col_w c)) col_group)) of
        Inl e \<Rightarrow> Inl e
      | Inr h \<Rightarrow>
          (let heading = borders i n h;
               hrule = replicate (length heading) (CHR ''-'')
           in Inr ([hrule, heading, hrule]
                   @ map (\<lambda>j. borders i n
                              (join COLSEP (map (\<lambda>c. center (col_cells c ! j) (col_w c)) col_group)))
                       [0..<n_egs]
                   @ [hrule])))"

definition col_group_str :: "nat \<Rightarrow> nat \<Rightarrow> nat \<Rightarrow> column list \<Rightarrow> pyerror + string" where
  "col_group_str n_egs n i col_group =
     (case cg_lines n_egs n i col_group of
        Inl e \<Rightarrow> Inl e | Inr ls \<Rightarrow> Inr (join [newline] ls))"

text \<open>
  \<^verbatim>\<open>
  egs = result.lint_samples[0].examples
  lines = [DD_PREAMBLE.format(result.warnings[0], len(egs))]
  cols = sorted(set(f for eg in egs for f in eg.features.feature))[:DD_MAX_COLS]
  col_vals = {col: [] for col in cols}
  col_widths = {col: min(len(col), DD_MAX_VAL_LEN - BORDER_SZ) for col in cols}
  for eg in egs:
    for col in cols:
      ...
  \<close>
  and at the end \<^verbatim>\<open>lines.append('\n\n'.join(col_group_strs))\<close>.\<close>

definition dd_cols :: "example list \<Rightarrow> string list" where
  "dd_cols egs = take DD_MAX_COLS (sort (remdups (concat (map (map fst) egs))))"

definition dd_columns :: "string list \<Rightarrow> string list list \<Rightarrow> column list" where
  "dd_columns cols rows =
     map (\<lambda>(k, col). let vals = map (\<lambda>row. row ! k) rows
                      in \<lparr>col_name = col, col_w = col_width col vals, col_cells = vals\<rparr>)
       (zip [0..<length cols] cols)"

definition dd_groups :: "example list \<Rightarrow> int \<Rightarrow> pyerror + column list list" where
  "dd_groups egs max_width =
     (let cols = dd_cols egs
      in case traverse (\<lambda>eg. traverse (dd_cell eg) cols) egs of
           Inl e \<Rightarrow> Inl e
         | Inr rows \<Rightarrow> Inr (group_cols max_width (dd_columns cols rows)))"

definition dd_group_strs :: "example list \<Rightarrow> int \<Rightarrow> pyerror + string list" where
  "dd_group_strs egs max_width =
     (case dd_groups egs max_width of
        Inl e \<Rightarrow> Inl e
      | Inr col_groups \<Rightarrow>
          (let n = length col_groups
           in traverse (\<lambda>(i, g). col_group_str (length egs) n i g)
                (zip [1..<Suc n] col_groups)))"

definition format_warnings_dd ::
    "lint_result \<Rightarrow> string set \<Rightarrow> int \<Rightarrow> pyerror + string list" where
  "format_warnings_dd result suppress max_width =
     (case lint_samples result of
        [] \<Rightarrow> Inl IndexError
      | s0 # _ \<Rightarrow>
          (let egs = examples s0
           in case warnings result of
                [] \<Rightarrow> Inl IndexError
              | w # _ \<Rightarrow>
                  (case DD_PREAMBLE w (length egs) of
                     Inl e \<Rightarrow> Inl e
                   | Inr preamble \<Rightarrow>
                       (case dd_group_strs egs max_width of
                          Inl e \<Rightarrow> Inl e
                        | Inr col_group_strs \<Rightarrow>
                            Inr [preamble, join [newline, newline] col_group_strs]))))"

subsection \<open>The formatter of UncommonSignDetector\<close>

text \<open>
  \<^verbatim>\<open>
    num_unique_vals = sample.nums[0]
    wstrs = []
    for sign_str, sign_count in zip(sample.strings, sample.nums[1:]):
      pct_w_sign = sign_count / num_unique_vals * 100
      if pct_w_sign >= 1:
        pct_str = PCT_FMT.format(pct_w_sign)
      else:
        pct_str = '< 1%'
      wstrs.append(USD_WFMT.format(sign_str, pct_str))
    lines.append(LI_SAMP.format(pformat(warning, quote=False),
                                ', '.join(wstrs)))
  \<close>\<close>

definition usd_pct_str :: "fl \<Rightarrow> string" where
  "usd_pct_str pct_w_sign = (if fl_ge pct_w_sign 1 then PCT_FMT pct_w_sign else ''< 1%'')"

definition usd_wstr :: "rat \<Rightarrow> string \<Rightarrow> rat \<Rightarrow> pyerror + string" where
  "usd_wstr num_unique_vals sign_str sign_count =
     (case py_truediv sign_count num_unique_vals of
        Inl e \<Rightarrow> Inl e
      | Inr q \<Rightarrow>
          (let pct_w_sign = times_100 q;
               pct_str = usd_pct_str pct_w_sign
           in USD_WFMT sign_str pct_str))"

definition dus_line :: "string \<Rightarrow> lint_sample \<Rightarrow> pyerror + string" where
  "dus_line warning sample =
     (case nums sample of
        [] \<Rightarrow> Inl IndexError
      | num_unique_vals # sign_counts \<Rightarrow>
          (case traverse (\<lambda>(sign_str, sign_count). usd_wstr num_unique_vals sign_str sign_count)
                  (zip (strings sample) sign_counts) of
             Inl e \<Rightarrow> Inl e
           | Inr wstrs \<Rightarrow>
               (case pformat (PyUnicode warning) MAX_LEN False of
                  Inl e \<Rightarrow> Inl e
                | Inr wstr \<Rightarrow> Inr (LI_SAMP wstr (join '', '' wstrs)))))"

definition format_warnings_dus ::
    "lint_result \<Rightarrow> string set \<Rightarrow> int \<Rightarrow> pyerror + string list" where
  "format_warnings_dus result suppress max_width =
     with_preamble USD_PREAMBLE
       (warning_lines dus_line suppress (zip (warnings result) (lint_samples result)))"

subsection \<open>The formatter of TailedDistributionDetector\<close>

text \<open>
  \<^verbatim>\<open>
    stats = sample.stats[0]
    extremes = stats.id.split(',')
    extremal = [getattr(stats, e) for e in extremes]
    wstrs = [TDD_WFMT.format(e, float(ev)) for e, ev in zip(extremes, extremal)]
    lines.append(LI_SAMP.format(pformat(warning, quote=False),
                                ', '.join(wstrs)))
  \<close>
  \<^verbatim>\<open>float(ev)\<close> is applied to what \<^verbatim>\<open>getattr\<close> returned. It is \<open>ev\<close> for a float. The only
  text that reaches it is the identifier of a record that names its own field \<^verbatim>\<open>id\<close>:
  it holds the letters \<^verbatim>\<open>id\<close>, so it is no numeral and \<^verbatim>\<open>float\<close> raises \<^verbatim>\<open>ValueError\<close>. An
  object that is neither a number nor text raises \<^verbatim>\<open>TypeError\<close>; \<^verbatim>\<open>getattr\<close>, as modelled,
  returns nothing else.\<close>

definition to_float :: "pyobj \<Rightarrow> pyerror + rat" where
  "to_float ev =
     (case ev of
        PyFloat x \<Rightarrow> Inr x
      | PyUnicode _ \<Rightarrow> Inl ValueError
      | _ \<Rightarrow> Inl TypeError)"

definition tdd_wstr :: "string \<Rightarrow> pyobj \<Rightarrow> pyerror + string" where
  "tdd_wstr e ev = (case to_float ev of Inl err \<Rightarrow> Inl err | Inr x \<Rightarrow> TDD_WFMT e x)"

definition don_line :: "string \<Rightarrow> lint_sample \<Rightarrow> pyerror + string" where
  "don_line warning sample =
     (case stats sample of
        [] \<Rightarrow> Inl IndexError
      | st # _ \<Rightarrow>
          (let extremes = split (CHR '','') (id' st)
           in case traverse (getattr st) extremes of
                Inl e \<Rightarrow> Inl e
              | Inr extremal \<Rightarrow>
                  (case traverse (\<lambda>(e, ev). tdd_wstr e ev) (zip extremes extremal) of
                     Inl e \<Rightarrow> Inl e
                   | Inr wstrs \<Rightarrow>
                       (case pformat (PyUnicode warning) MAX_LEN False of
                          Inl e \<Rightarrow> Inl e
                        | Inr wstr \<Rightarrow> Inr (LI_SAMP wstr (join '', '' wstrs))))))"

definition format_warnings_don ::
    "lint_result \<Rightarrow> string set \<Rightarrow> int \<Rightarrow> pyerror + string list" where
  "format_warnings_don result suppress max_width =
     with_preamble TDD_PREAMBLE
       (warning_lines don_line suppress (zip (warnings result) (lint_samples result)))"

subsection \<open>The formatter of IntAsFloatDetector\<close>

text \<open>
  \<^verbatim>\<open>
  wstrs = [LI.format(pformat(warning, quote=False))
           for warning in result.warnings]
  lines = [FLAG_PREAMBLE, '\n'.join(wstrs)]
  return lines
  \<close>\<close>

definition format_warnings_iaf ::
    "lint_result \<Rightarrow> string set \<Rightarrow> int \<Rightarrow> pyerror + string list" where
  "format_warnings_iaf result suppress max_width =
     (case traverse (\<lambda>warning. pformat (PyUnicode warning) MAX_LEN False) (warnings result) of
        Inl e \<Rightarrow> Inl e
      | Inr ws \<Rightarrow> Inr [FLAG_PREAMBLE, join [newline] (map LI ws)])"

section \<open>Properties\<close>

subsection \<open>Evaluation\<close>

text \<open>The floor and the ceiling of a quotient of numerals, for the simplifier, and the
  equations that evaluate the formatters on concrete inputs.\<close>

lemma floor_rat_numeral [simp]:
  "\<lfloor>numeral a / numeral b :: rat\<rfloor> = numeral a div numeral b"
  by (metis floor_divide_of_int_eq of_int_numeral)

lemma ceiling_rat_numeral [simp]:
  "\<lceil>numeral a / numeral b :: rat\<rceil> = - (- numeral a div numeral b)"
  by (metis floor_divide_of_int_eq of_int_numeral ceiling_def of_int_minus minus_divide_left)

lemmas num_eval =
  pow_int_def ndigits.simps ilog_def round_half_even_def fl_round_def str_int.simps
  rstrip0_def sig_round_def exp_digits_def fixed_digits_def sci_digits_def format_g_def
  format_f0_def py_truediv_def fl_div_def to_binary64_def Let_def

lemmas str_eval =
  squote_def dquote_def backslash_def newline_def is_ascii_def encode_ascii_def
  hex2_def repr_char_def repr_str_def strip_def center_def cram_def Let_def

lemmas fmt_eval =
  unwrap_def is_number_def pformat_def format_warning_sample_pair_def with_preamble_def
  format_warnings_def format_warnings_iaf_def MAX_LEN_def MAX_WIDTH_def FLAG_PREAMBLE_def
  FLAG_SAMPS_PREAMBLE_def LI_def LI_SAMP_def

subsection \<open>The exponent of a number\<close>

text \<open>The number of digits and the exponent are what their names say: \<open>ilog b a\<close> is the
  integer \<open>k\<close> with \<open>b ^ k \<le> a < b ^ (k + 1)\<close>, and rounding to an integer moves a number
  by no more than one half.\<close>

lemma ndigits_bounds:
  "2 \<le> b \<Longrightarrow> 0 < n \<Longrightarrow> b ^ (ndigits b n - 1) \<le> n \<and> n < b ^ ndigits b n"
proof (induction b n rule: ndigits.induct)
  case (1 b n)
  have nd: "ndigits b n = Suc (ndigits b (n div b))"
    using "1.prems" by (subst ndigits.simps) simp
  have dm: "b * (n div b) + n mod b = n" by simp
  have mb: "0 \<le> n mod b \<and> n mod b < b" using "1.prems" by simp
  have lo: "b * (n div b) \<le> n" using dm mb by linarith
  have "b * (n div b + 1) = b * (n div b) + b" by (simp add: distrib_left)
  then have hi: "n < b * (n div b + 1)" using dm mb by linarith
  show ?case
  proof (cases "n div b = 0")
    case True
    then have "n < b" using dm mb by (metis add_0 mult_zero_right)
    moreover have "ndigits b (n div b) = 0" using True by (subst ndigits.simps) simp
    ultimately show ?thesis using "1.prems" nd by simp
  next
    case False
    have "0 \<le> n div b" using "1.prems" by (simp add: pos_imp_zdiv_nonneg_iff)
    with False have pos: "0 < n div b" by simp
    have ih: "b ^ (ndigits b (n div b) - 1) \<le> n div b \<and> n div b < b ^ ndigits b (n div b)"
      using "1.IH" "1.prems" pos by simp
    have k: "0 < ndigits b (n div b)" using pos "1.prems" by (subst ndigits.simps) simp
    have "b ^ ndigits b (n div b) = b * b ^ (ndigits b (n div b) - 1)"
      using k by (cases "ndigits b (n div b)") simp_all
    then have "b ^ ndigits b (n div b) \<le> b * (n div b)"
      using ih "1.prems" by simp
    moreover have "b * (n div b + 1) \<le> b * b ^ ndigits b (n div b)"
      using ih "1.prems" by simp
    ultimately show ?thesis using nd lo hi by simp
  qed
qed

lemma ilog_bounds:
  assumes "2 \<le> b" and "0 < a"
  shows "pow_int (of_int b) (ilog b a) \<le> a \<and> a < pow_int (of_int b) (ilog b a + 1)"
proof (cases "1 \<le> a")
  case True
  then have n: "0 < \<lfloor>a\<rfloor>" by simp
  define k where "k = ndigits b \<lfloor>a\<rfloor>"
  have kb: "b ^ (k - 1) \<le> \<lfloor>a\<rfloor> \<and> \<lfloor>a\<rfloor> < b ^ k"
    unfolding k_def using ndigits_bounds [OF assms(1) n] .
  have k0: "0 < k" using kb n by (cases k) auto
  have e: "ilog b a = int k - 1" using True by (simp add: ilog_def k_def)
  have "of_int (b ^ (k - 1)) \<le> a" using kb le_floor_iff by blast
  then have l: "(of_int b :: rat) ^ (k - 1) \<le> a" by simp
  have "a < of_int (b ^ k)" using kb floor_less_iff by blast
  then have u: "a < (of_int b :: rat) ^ k" by simp
  show ?thesis using l u k0 by (simp add: e pow_int_def nat_diff_distrib')
next
  case False
  then have a1: "a < 1" by simp
  define c where "c = \<lceil>1 / a\<rceil>"
  have "1 < 1 / a" using a1 assms(2) by simp
  then have c2: "1 < c" unfolding c_def by (simp add: less_ceiling_iff)
  define k where "k = ndigits b (c - 1)"
  have kb: "b ^ (k - 1) \<le> c - 1 \<and> c - 1 < b ^ k"
    unfolding k_def using ndigits_bounds [OF assms(1), of "c - 1"] c2 by simp
  have k0: "0 < k" using kb c2 by (cases k) auto
  have e: "ilog b a = - int k" using False by (simp add: ilog_def k_def c_def)
  have "c \<le> b ^ k" using kb by simp
  then have "1 / a \<le> of_int (b ^ k)" unfolding c_def ceiling_le_iff .
  then have "1 / a \<le> (of_int b :: rat) ^ k" by simp
  then have l: "1 / (of_int b :: rat) ^ k \<le> a"
    using assms by (simp add: field_simps)
  have "b ^ (k - 1) < c" using kb by simp
  then have "of_int (b ^ (k - 1)) < 1 / a" unfolding c_def less_ceiling_iff .
  then have "(of_int b :: rat) ^ (k - 1) < 1 / a" by simp
  then have u: "a < 1 / (of_int b :: rat) ^ (k - 1)"
    using assms by (simp add: field_simps)
  show ?thesis
  proof (cases "k = 1")
    case True
    then show ?thesis using l u by (simp add: e pow_int_def)
  next
    case False
    with k0 have "1 < k" by simp
    then have "nat (int k - 1) = k - 1" by simp
    then show ?thesis using l u \<open>1 < k\<close> by (simp add: e pow_int_def)
  qed
qed

lemma round_half_even_near: "\<bar>of_int (round_half_even x) - x\<bar> \<le> 1 / 2"
proof -
  define r where "r = x - of_int \<lfloor>x\<rfloor>"
  have r: "0 \<le> r \<and> r < 1"
    unfolding r_def using floor_correct [of x] by linarith
  consider "r < 1 / 2" | "1 / 2 < r" | "r = 1 / 2" by linarith
  then show ?thesis
  proof cases
    case 1
    then have "round_half_even x = \<lfloor>x\<rfloor>"
      by (simp add: round_half_even_def r_def)
    then have "of_int (round_half_even x) - x = - r" by (simp add: r_def)
    then show ?thesis using r 1 by simp
  next
    case 2
    then have "round_half_even x = \<lfloor>x\<rfloor> + 1"
      by (simp add: round_half_even_def r_def)
    then have "of_int (round_half_even x) - x = 1 - r" by (simp add: r_def)
    then show ?thesis using r 2 by simp
  next
    case 3
    then have "round_half_even x = \<lfloor>x\<rfloor> \<or> round_half_even x = \<lfloor>x\<rfloor> + 1"
      by (simp add: round_half_even_def r_def Let_def)
    then have "of_int (round_half_even x) - x = - r \<or> of_int (round_half_even x) - x = 1 - r"
      by (auto simp: r_def)
    then show ?thesis using 3 by auto
  qed
qed

subsection \<open>The pretty-printer on text\<close>

text \<open>\<^verbatim>\<open>pformat\<close> never raises on text: only a number can make it raise.\<close>

lemma pformat_text:
  "pformat (PyUnicode s) max_len quote =
     Inr (cram (if quote then re_sub_u (CHR ''u'' # repr_str s)
                else strip dquote (strip squote (re_sub_u (CHR ''u'' # repr_str s)))) max_len)"
  by (simp add: pformat_def unwrap_def is_number_def)

lemma traverse_pformat_text:
  "traverse (\<lambda>w. pformat (PyUnicode w) max_len quote) ws =
     Inr (map (\<lambda>w. cram (if quote then re_sub_u (CHR ''u'' # repr_str w)
                else strip dquote (strip squote (re_sub_u (CHR ''u'' # repr_str w)))) max_len) ws)"
  by (induction ws) (simp_all add: pformat_text)

subsection \<open>Suppressed warnings\<close>

text \<open>In the loop over the pairs of a warning and a sample, a suppressed warning adds no
  line: the loop does what it does on the pairs that are not suppressed.\<close>

lemma warning_lines_suppressed:
  "warning_lines body suppress ps =
     warning_lines body suppress (filter (\<lambda>(w, s). w \<notin> suppress) ps)"
  by (induction ps) (auto split: sum.splits)

lemma warning_lines_all_suppressed:
  "set (map fst ps) \<subseteq> suppress \<Longrightarrow> warning_lines body suppress ps = Inr []"
  by (induction ps) auto

text \<open>The formatter of NonNormalNumericFeatureDetector looks for the name of the feature,
  the part of the warning before the colon, in the suppression set.\<close>

lemma nfnr_lines_suppressed_feature:
  "split (CHR '':'') warning = [warned_feature, warning_stats] \<Longrightarrow> warned_feature \<in> suppress
     \<Longrightarrow> nfnr_lines suppress ((warning, sample) # rest) = nfnr_lines suppress rest"
  by simp

text \<open>
  Claim C1. No warning of the suppression set adds a body line, for every formatter,
  the branch of the generic formatter without samples and the formatter of
  IntAsFloatDetector included. The code does not do this: the branch without samples
  and the formatter of IntAsFloatDetector never look at \<open>suppress\<close>. With the one
  warning \<open>a\<close>, no sample, and \<open>a\<close> suppressed, both still print the bullet of \<open>a\<close>.
\<close>

theorem suppressed_warning_still_listed:
  "format_warnings \<lparr>warnings = [''a''], lint_samples = []\<rparr> {''a''} MAX_WIDTH
     = Inr [''Flagged features:'', ''* '' @ [squote] @ ''a'' @ [squote]]
   \<and> format_warnings_iaf \<lparr>warnings = [''a''], lint_samples = []\<rparr> {''a''} MAX_WIDTH
     = Inr [''Flagged features:'', ''* a'']"
  by (simp add: str_eval fmt_eval)

subsection \<open>The pretty-printer on the values of the specification\<close>

text \<open>
  Claim C4, as stated: with its default arguments \<^verbatim>\<open>pformat\<close> prints the sequence
  \<^verbatim>\<open>["5"]\<close> as \<open>5\<close>, with no quotes. It does not: the default is \<^verbatim>\<open>quote=True\<close>, which
  keeps the quotes of \<^verbatim>\<open>repr\<close>.
\<close>

theorem pformat_default_keeps_quotes:
  "pformat (PyList [PyUnicode ''5'']) MAX_LEN True \<noteq> Inr ''5''"
  by (simp add: str_eval fmt_eval)

text \<open>
  Claim C4, amended. With its default arguments \<^verbatim>\<open>pformat\<close> prints the sequence
  \<^verbatim>\<open>["5"]\<close>, text or bytes, without brackets and between single quotes; with
  \<^verbatim>\<open>quote=False\<close> it prints \<open>5\<close>; and it prints the number 3.14159 as \<open>3.142\<close>.
\<close>

theorem pformat_examples:
  "pformat (PyList [PyUnicode ''5'']) MAX_LEN True = Inr ([squote] @ ''5'' @ [squote])
   \<and> pformat (PyList [PyStr ''5'']) MAX_LEN True = Inr ([squote] @ ''5'' @ [squote])
   \<and> pformat (PyList [PyUnicode ''5'']) MAX_LEN False = Inr ''5''
   \<and> pformat (PyFloat (fl_round 3.14159)) MAX_LEN True = Inr ''3.142''"
  by (simp add: str_eval fmt_eval num_eval)

subsection \<open>The generic formatter without samples\<close>

text \<open>
  Claim C9. The generic formatter, on the warnings \<open>a\<close> and \<open>b\<close>, no sample and nothing
  suppressed, returns the preamble and one block of two bullets, of \<open>a\<close> and of \<open>b\<close> in
  this order.
\<close>

theorem format_warnings_two_bullets:
  "format_warnings \<lparr>warnings = [''a'', ''b''], lint_samples = []\<rparr> {} max_width
     = Inr [FLAG_PREAMBLE,
            join [newline] [''* '' @ [squote] @ ''a'' @ [squote],
                            ''* '' @ [squote] @ ''b'' @ [squote]]]"
  by (simp add: str_eval fmt_eval)

subsection \<open>Warnings without a sample\<close>

lemma zip_take_samples: "zip (take (length ys) xs) ys = zip xs ys"
  by (induction xs ys rule: list_induct2') simp_all

text \<open>
  Claim C10. The formatters that pair warnings with samples (the generic one when there
  are samples, and those of EnumDetector, UncommonListLengthDetector,
  UncommonSignDetector and TailedDistributionDetector) stop at the shorter sequence: when
  there are samples, the warnings beyond the number of samples change nothing, neither
  the lines nor whether an exception is raised. The result is the result on the
  warnings cut to the number of samples.
\<close>

theorem trailing_warnings_omitted:
  assumes "lint_samples result \<noteq> []"
  shows "format_warnings result suppress max_width =
           format_warnings (result\<lparr>warnings := take (length (lint_samples result)) (warnings result)\<rparr>)
             suppress max_width
       \<and> format_warnings_de result suppress max_width =
           format_warnings_de (result\<lparr>warnings := take (length (lint_samples result)) (warnings result)\<rparr>)
             suppress max_width
       \<and> format_warnings_llo result suppress max_width =
           format_warnings_llo (result\<lparr>warnings := take (length (lint_samples result)) (warnings result)\<rparr>)
             suppress max_width
       \<and> format_warnings_dus result suppress max_width =
           format_warnings_dus (result\<lparr>warnings := take (length (lint_samples result)) (warnings result)\<rparr>)
             suppress max_width
       \<and> format_warnings_don result suppress max_width =
           format_warnings_don (result\<lparr>warnings := take (length (lint_samples result)) (warnings result)\<rparr>)
             suppress max_width"
  using assms
  by (simp add: format_warnings_def format_warnings_de_def format_warnings_llo_def
      format_warnings_dus_def format_warnings_don_def zip_take_samples)

theorem trailing_warnings_omitted_witness:
  "lint_samples \<lparr>warnings = [''a'', ''b''],
                 lint_samples = [\<lparr>strings = [''x''], nums = [], stats = [], examples = []\<rparr>]\<rparr> \<noteq> []
   \<and> format_warnings \<lparr>warnings = [''a'', ''b''],
                       lint_samples = [\<lparr>strings = [''x''], nums = [], stats = [], examples = []\<rparr>]\<rparr>
        {} 80
     = format_warnings \<lparr>warnings = [''a''],
                         lint_samples = [\<lparr>strings = [''x''], nums = [], stats = [], examples = []\<rparr>]\<rparr>
        {} 80
   \<and> format_warnings \<lparr>warnings = [''a'', ''b''],
                       lint_samples = [\<lparr>strings = [''x''], nums = [], stats = [], examples = []\<rparr>]\<rparr>
        {} 80
     = Inr [''Flagged features (and sample values):'', ''* a: '' @ [squote] @ ''x'' @ [squote]]"
  using trailing_warnings_omitted
    [of "\<lparr>warnings = [''a'', ''b''],
          lint_samples = [\<lparr>strings = [''x''], nums = [], stats = [], examples = []\<rparr>]\<rparr>" "{}" 80]
  by (simp add: str_eval fmt_eval)

subsection \<open>The loop over the pairs\<close>

text \<open>The loop over the pairs of a warning and a sample, on a list of pairs in two parts;
  a pair that the loop reaches, after pairs that it formatted without an exception,
  raises what its body raises, and otherwise gives the line that comes after the lines
  of the pairs before it.\<close>

lemma warning_lines_append:
  "warning_lines body suppress (ps @ qs) =
     (case warning_lines body suppress ps of
        Inl e \<Rightarrow> Inl e
      | Inr ls \<Rightarrow> (case warning_lines body suppress qs of
                     Inl e \<Rightarrow> Inl e | Inr ls' \<Rightarrow> Inr (ls @ ls')))"
proof (induction ps)
  case Nil
  show ?case by (simp split: sum.splits)
next
  case (Cons p ps)
  obtain w s where p: "p = (w, s)" by (cases p)
  show ?case
    unfolding p using Cons.IH
    by (cases "w \<in> suppress") (simp_all split: sum.splits)
qed

lemma warning_lines_reached:
  assumes "length ws = length ss"
    and "warning_lines body suppress (zip ws ss) = Inr ls"
    and "w \<notin> suppress" and "body w s = Inl e"
  shows "warning_lines body suppress (zip (ws @ w # ws') (ss @ s # ss')) = Inl e"
proof -
  have "zip (ws @ w # ws') (ss @ s # ss') = zip ws ss @ (w, s) # zip ws' ss'"
    using assms(1) by simp
  then show ?thesis
    using assms(2,3,4) by (simp add: warning_lines_append)
qed

lemma warning_lines_line:
  assumes "length ws = length ss"
    and "warning_lines body suppress (zip ws ss) = Inr ls"
    and "w \<notin> suppress" and "body w s = Inr l"
    and "warning_lines body suppress (zip (ws @ w # ws') (ss @ s # ss')) = Inr out"
  shows "out ! length ls = l"
proof -
  have "zip (ws @ w # ws') (ss @ s # ss') = zip ws ss @ (w, s) # zip ws' ss'"
    using assms(1) by simp
  then show ?thesis
    using assms(2,3,4,5) by (auto simp: warning_lines_append split: sum.splits)
qed

lemma with_preamble_Inl: "with_preamble p r = Inl e \<longleftrightarrow> r = Inl e"
  by (simp add: with_preamble_def split: sum.splits)

lemma traverse_Inr:
  "traverse f xs = Inr ys \<Longrightarrow>
     length ys = length xs \<and> (\<forall>i<length xs. f (xs ! i) = Inr (ys ! i))"
proof (induction xs arbitrary: ys)
  case Nil
  then show ?case by simp
next
  case (Cons x xs)
  then obtain y ys' where y: "f x = Inr y" "traverse f xs = Inr ys'" "ys = y # ys'"
    by (auto split: sum.splits)
  with Cons.IH [of ys'] show ?case
    by (auto simp: nth_Cons split: nat.splits)
qed

lemma traverse_map:
  "(\<And>x. x \<in> set xs \<Longrightarrow> f x = Inr (g x)) \<Longrightarrow> traverse f xs = Inr (map g xs)"
  by (induction xs) simp_all

subsection \<open>A denominator that is zero\<close>

text \<open>
  Claim C3, as stated: when the first number of a sample (the total that the percentages
  divide by) is 0, the formatters of UncommonListLengthDetector and UncommonSignDetector
  guard the division and do not fail with a division error. They have no guard: both
  raise \<^verbatim>\<open>ZeroDivisionError\<close>.
\<close>

theorem zero_denominator_counterexample:
  "format_warnings_llo
     \<lparr>warnings = [''f''],
      lint_samples = [\<lparr>strings = [], nums = [0],
                       stats = [\<lparr>id' = '''', mean = 0, std_dev = 0, min' = 1, max' = 2, count = 3,
                                 others = Map.empty\<rparr>,
                                \<lparr>id' = '''', mean = 0, std_dev = 0, min' = 3, max' = 3, count = 7,
                                 others = Map.empty\<rparr>],
                       examples = []\<rparr>]\<rparr> {} MAX_WIDTH = Inl ZeroDivisionError
   \<and> format_warnings_dus
     \<lparr>warnings = [''f''],
      lint_samples = [\<lparr>strings = [''negative''], nums = [0, 1], stats = [], examples = []\<rparr>]\<rparr>
     {} MAX_WIDTH = Inl ZeroDivisionError"
  by (simp add: format_warnings_llo_def format_warnings_dus_def with_preamble_def llo_line_def
      dus_line_def bucket_pct_def usd_wstr_def py_truediv_def)

lemma llo_line_zero:
  "nums sample = 0 # rest \<Longrightarrow> stats sample \<noteq> [] \<Longrightarrow> llo_line warning sample = Inl ZeroDivisionError"
  by (cases "stats sample") (simp_all add: llo_line_def bucket_pct_def py_truediv_def)

lemma dus_line_zero:
  "nums sample = 0 # sign_counts \<Longrightarrow> strings sample \<noteq> [] \<Longrightarrow> sign_counts \<noteq> []
     \<Longrightarrow> dus_line warning sample = Inl ZeroDivisionError"
  by (cases "strings sample"; cases sign_counts)
    (simp_all add: dus_line_def usd_wstr_def py_truediv_def)

text \<open>
  Claim C3, amended. The two formatters do not guard the division. When the loop
  reaches a pair (the pairs before it were formatted without an exception) whose warning
  is not suppressed and whose sample has 0 as its first number, the formatter of
  UncommonListLengthDetector raises \<^verbatim>\<open>ZeroDivisionError\<close> if the sample has a bucket, and
  the formatter of UncommonSignDetector if the sample has a sign with its count.
\<close>

theorem zero_denominator_raises:
  assumes "length ws = length ss"
    and "warning \<notin> suppress" and "nums sample = 0 # sign_counts"
  shows "(stats sample \<noteq> []
            \<and> (\<exists>ls. warning_lines llo_line suppress (zip ws ss) = Inr ls) \<longrightarrow>
            format_warnings_llo
              \<lparr>warnings = ws @ warning # ws', lint_samples = ss @ sample # ss'\<rparr>
              suppress max_width = Inl ZeroDivisionError)
       \<and> (strings sample \<noteq> [] \<and> sign_counts \<noteq> []
            \<and> (\<exists>ls. warning_lines dus_line suppress (zip ws ss) = Inr ls) \<longrightarrow>
            format_warnings_dus
              \<lparr>warnings = ws @ warning # ws', lint_samples = ss @ sample # ss'\<rparr>
              suppress max_width = Inl ZeroDivisionError)"
proof (intro conjI impI)
  assume "stats sample \<noteq> []
      \<and> (\<exists>ls. warning_lines llo_line suppress (zip ws ss) = Inr ls)"
  then obtain ls where "stats sample \<noteq> []"
    and "warning_lines llo_line suppress (zip ws ss) = Inr ls" by blast
  then have "warning_lines llo_line suppress (zip (ws @ warning # ws') (ss @ sample # ss'))
      = Inl ZeroDivisionError"
    using assms by (intro warning_lines_reached llo_line_zero)
  then show "format_warnings_llo
      \<lparr>warnings = ws @ warning # ws', lint_samples = ss @ sample # ss'\<rparr>
      suppress max_width = Inl ZeroDivisionError"
    by (simp add: format_warnings_llo_def with_preamble_def)
next
  assume "strings sample \<noteq> [] \<and> sign_counts \<noteq> []
      \<and> (\<exists>ls. warning_lines dus_line suppress (zip ws ss) = Inr ls)"
  then obtain ls where "strings sample \<noteq> []" "sign_counts \<noteq> []"
    and "warning_lines dus_line suppress (zip ws ss) = Inr ls" by blast
  then have "warning_lines dus_line suppress (zip (ws @ warning # ws') (ss @ sample # ss'))
      = Inl ZeroDivisionError"
    using assms by (intro warning_lines_reached dus_line_zero)
  then show "format_warnings_dus
      \<lparr>warnings = ws @ warning # ws', lint_samples = ss @ sample # ss'\<rparr>
      suppress max_width = Inl ZeroDivisionError"
    by (simp add: format_warnings_dus_def with_preamble_def)
qed

text \<open>The witness has the sample with the zero in the second place, after a pair that
  both formatters print, and before a third pair.\<close>

theorem zero_denominator_raises_witness:
  "format_warnings_llo
     \<lparr>warnings = [''a'', ''f'', ''g''],
      lint_samples =
        [\<lparr>strings = [''negative''], nums = [200, 1],
          stats = [\<lparr>id' = '''', mean = 0, std_dev = 0, min' = 1, max' = 2, count = 3,
                    others = Map.empty\<rparr>,
                   \<lparr>id' = '''', mean = 0, std_dev = 0, min' = 3, max' = 3, count = 197,
                    others = Map.empty\<rparr>],
          examples = []\<rparr>,
         \<lparr>strings = [''negative''], nums = [0, 1],
          stats = [\<lparr>id' = '''', mean = 0, std_dev = 0, min' = 1, max' = 2, count = 3,
                    others = Map.empty\<rparr>],
          examples = []\<rparr>,
         \<lparr>strings = [], nums = [], stats = [], examples = []\<rparr>]\<rparr> {} 80
     = Inl ZeroDivisionError
   \<and> format_warnings_dus
     \<lparr>warnings = [''a'', ''f'', ''g''],
      lint_samples =
        [\<lparr>strings = [''negative''], nums = [200, 1],
          stats = [\<lparr>id' = '''', mean = 0, std_dev = 0, min' = 1, max' = 2, count = 3,
                    others = Map.empty\<rparr>,
                   \<lparr>id' = '''', mean = 0, std_dev = 0, min' = 3, max' = 3, count = 197,
                    others = Map.empty\<rparr>],
          examples = []\<rparr>,
         \<lparr>strings = [''negative''], nums = [0, 1],
          stats = [\<lparr>id' = '''', mean = 0, std_dev = 0, min' = 1, max' = 2, count = 3,
                    others = Map.empty\<rparr>],
          examples = []\<rparr>,
         \<lparr>strings = [], nums = [], stats = [], examples = []\<rparr>]\<rparr> {} 80
     = Inl ZeroDivisionError"
proof -
  let ?s1 = "\<lparr>strings = [''negative''], nums = [200, 1],
          stats = [\<lparr>id' = '''', mean = 0, std_dev = 0, min' = 1, max' = 2, count = 3,
                    others = Map.empty\<rparr>,
                   \<lparr>id' = '''', mean = 0, std_dev = 0, min' = 3, max' = 3, count = 197,
                    others = Map.empty\<rparr>],
          examples = []\<rparr>"
  let ?s2 = "\<lparr>strings = [''negative''], nums = [0, 1],
          stats = [\<lparr>id' = '''', mean = 0, std_dev = 0, min' = 1, max' = 2, count = 3,
                    others = Map.empty\<rparr>],
          examples = []\<rparr>"
  let ?s3 = "\<lparr>strings = [], nums = [], stats = [], examples = []\<rparr>"
  have h1: "length [''a''] = length [?s1]" by simp
  have h2: "''f'' \<notin> ({} :: string set)" by simp
  have h3: "nums ?s2 = 0 # [1]" by simp
  have l: "warning_lines llo_line {} (zip [''a''] [?s1])
      = Inr [''* a: 1.5% had length 1 to 2 but 98.5% had 3.'']"
    by (simp add: llo_line_def bucket_pct_def bucket_bound_def PCT_FMT_def ULL_WFMT_def
        str_eval fmt_eval num_eval)
  have d: "warning_lines dus_line {} (zip [''a''] [?s1])
      = Inr [''* a: negative occurred < 1% of the time'']"
    by (simp add: dus_line_def usd_wstr_def usd_pct_str_def USD_WFMT_def PCT_FMT_def
        str_eval fmt_eval num_eval)
  show ?thesis
    using zero_denominator_raises [OF h1 h2 h3, of "[''g'']" "[?s3]" 80] l d by simp
qed

subsection \<open>Percentages of the uncommon signs\<close>

lemma half_percent: "times_100 (fl_div a b) = Fin (1 / 2)" if "a / b = 1 / 200"
proof -
  have "a \<noteq> 0" using that by auto
  then have "fl_div a b = to_binary64 (1 / 200)" using that by (simp add: fl_div_def)
  then show ?thesis by (simp add: num_eval)
qed

lemma one_percent: "times_100 (fl_div a b) = Fin 1" if "a / b = 1 / 100"
proof -
  have "a \<noteq> 0" using that by auto
  then have "fl_div a b = to_binary64 (1 / 100)" using that by (simp add: fl_div_def)
  then show ?thesis by (simp add: num_eval)
qed

lemma usd_pct_str_half: "usd_pct_str (Fin (1 / 2)) = ''< 1%''"
  by (simp add: usd_pct_str_def)

lemma usd_pct_str_one: "usd_pct_str (Fin 1) = ''1%''"
  by (simp add: usd_pct_str_def PCT_FMT_def num_eval)

lemma fl_ge_iff: "fl_ge p r \<longleftrightarrow> \<not> fl_less p r"
  by (cases p) auto

text \<open>The line of a sample whose first number is not zero and whose signs are ASCII
  text: every sign with a count is printed with its percentage.\<close>

lemma dus_line_text:
  assumes "nums sample = num_unique_vals # sign_counts" and "num_unique_vals \<noteq> 0"
    and "list_all is_ascii (strings sample)"
  shows "dus_line warning sample =
     (case pformat (PyUnicode warning) MAX_LEN False of
        Inl e \<Rightarrow> Inl e
      | Inr wstr \<Rightarrow>
          Inr (''* '' @ wstr @ '': '' @
               join '', ''
                 (map (\<lambda>(sign_str, sign_count).
                         sign_str @ '' occurred ''
                         @ usd_pct_str (times_100 (fl_div sign_count num_unique_vals))
                         @ '' of the time'')
                    (zip (strings sample) sign_counts))))"
proof -
  have "traverse (\<lambda>(sign_str, sign_count). usd_wstr num_unique_vals sign_str sign_count)
          (zip (strings sample) sign_counts)
        = Inr (map (\<lambda>(sign_str, sign_count).
                         sign_str @ '' occurred ''
                         @ usd_pct_str (times_100 (fl_div sign_count num_unique_vals))
                         @ '' of the time'')
                    (zip (strings sample) sign_counts))"
  proof (rule traverse_map)
    fix x assume x: "x \<in> set (zip (strings sample) sign_counts)"
    obtain s c where sc: "x = (s, c)" by (cases x)
    with x have "s \<in> set (strings sample)" by (auto dest: set_zip_leftD)
    then have "is_ascii s" using assms(3) by (simp add: list_all_iff)
    then show "(case x of (sign_str, sign_count) \<Rightarrow> usd_wstr num_unique_vals sign_str sign_count)
        = Inr (case x of (sign_str, sign_count) \<Rightarrow>
                 sign_str @ '' occurred ''
                 @ usd_pct_str (times_100 (fl_div sign_count num_unique_vals))
                 @ '' of the time'')"
      using assms(2)
      by (simp add: sc usd_wstr_def py_truediv_def USD_WFMT_def encode_ascii_def)
  qed
  then show ?thesis
    using assms(1) by (simp add: dus_line_def LI_SAMP_def LI_def pformat_text)
qed

text \<open>
  Claim C5. In the formatter of UncommonSignDetector a sign whose share of the values is
  exactly 0.5% is printed as \<open>< 1%\<close>, and a share of exactly 1% as \<open>1%\<close>: the text
  \<open>< 1%\<close> is printed exactly when the percentage that the code computes is below 1. The
  formatter prints this text: for a pair that its loop reaches, with a warning that is
  not suppressed, a first number that is not zero and signs in ASCII, it returns, unless
  a later pair raises, the lines of the pairs before, then the line that holds for each
  sign of the sample the text of its percentage, then the lines of the later pairs.
\<close>

theorem uncommon_sign_percentage:
  assumes "length ws = length ss"
    and "warning_lines dus_line suppress (zip ws ss) = Inr ls"
    and "warning \<notin> suppress"
    and "nums sample = num_unique_vals # sign_counts" and "num_unique_vals \<noteq> 0"
    and "list_all is_ascii (strings sample)"
  shows "(\<exists>wstr. pformat (PyUnicode warning) MAX_LEN False = Inr wstr
            \<and> format_warnings_dus
                \<lparr>warnings = ws @ warning # ws', lint_samples = ss @ sample # ss'\<rparr>
                suppress max_width =
              (case warning_lines dus_line suppress (zip ws' ss') of
                 Inl e \<Rightarrow> Inl e
               | Inr ls' \<Rightarrow>
                   Inr (USD_PREAMBLE # ls @
                        (''* '' @ wstr @ '': '' @
                         join '', ''
                           (map (\<lambda>(sign_str, sign_count).
                                   sign_str @ '' occurred ''
                                   @ usd_pct_str (times_100 (fl_div sign_count num_unique_vals))
                                   @ '' of the time'')
                              (zip (strings sample) sign_counts))) # ls')))
       \<and> (sign_count / num_unique_vals = 1 / 200 \<longrightarrow>
            usd_pct_str (times_100 (fl_div sign_count num_unique_vals)) = ''< 1%'')
       \<and> (sign_count / num_unique_vals = 1 / 100 \<longrightarrow>
            usd_pct_str (times_100 (fl_div sign_count num_unique_vals)) = ''1%'')
       \<and> usd_pct_str p = (if fl_less p 1 then ''< 1%'' else PCT_FMT p)"
proof (intro conjI impI)
  obtain wstr where w: "pformat (PyUnicode warning) MAX_LEN False = Inr wstr"
    by (simp add: pformat_text)
  let ?l = "''* '' @ wstr @ '': '' @
                join '', ''
                  (map (\<lambda>(sign_str, sign_count).
                          sign_str @ '' occurred ''
                          @ usd_pct_str (times_100 (fl_div sign_count num_unique_vals))
                          @ '' of the time'')
                     (zip (strings sample) sign_counts))"
  have l: "dus_line warning sample = Inr ?l"
    using dus_line_text [OF assms(4,5,6), of warning] w by simp
  have z: "zip (ws @ warning # ws') (ss @ sample # ss')
      = zip ws ss @ (warning, sample) # zip ws' ss'"
    using assms(1) by simp
  have "format_warnings_dus
          \<lparr>warnings = ws @ warning # ws', lint_samples = ss @ sample # ss'\<rparr>
          suppress max_width =
        (case warning_lines dus_line suppress (zip ws' ss') of
           Inl e \<Rightarrow> Inl e
         | Inr ls' \<Rightarrow> Inr (USD_PREAMBLE # ls @ ?l # ls'))"
    using assms(2,3) l
    by (simp add: format_warnings_dus_def z warning_lines_append with_preamble_def
        split: sum.splits)
  with w show "\<exists>wstr. pformat (PyUnicode warning) MAX_LEN False = Inr wstr
            \<and> format_warnings_dus
                \<lparr>warnings = ws @ warning # ws', lint_samples = ss @ sample # ss'\<rparr>
                suppress max_width =
              (case warning_lines dus_line suppress (zip ws' ss') of
                 Inl e \<Rightarrow> Inl e
               | Inr ls' \<Rightarrow>
                   Inr (USD_PREAMBLE # ls @
                        (''* '' @ wstr @ '': '' @
                         join '', ''
                           (map (\<lambda>(sign_str, sign_count).
                                   sign_str @ '' occurred ''
                                   @ usd_pct_str (times_100 (fl_div sign_count num_unique_vals))
                                   @ '' of the time'')
                              (zip (strings sample) sign_counts))) # ls'))"
    by blast
next
  assume "sign_count / num_unique_vals = 1 / 200"
  then show "usd_pct_str (times_100 (fl_div sign_count num_unique_vals)) = ''< 1%''"
    by (simp add: half_percent usd_pct_str_half)
next
  assume "sign_count / num_unique_vals = 1 / 100"
  then show "usd_pct_str (times_100 (fl_div sign_count num_unique_vals)) = ''1%''"
    by (simp add: one_percent usd_pct_str_one)
next
  show "usd_pct_str p = (if fl_less p 1 then ''< 1%'' else PCT_FMT p)"
    by (simp add: usd_pct_str_def fl_ge_iff)
qed

text \<open>The witness: after a first pair, a sample of 200 values with 1 negative value, 2
  zeros and 50 values that are no number.\<close>

theorem uncommon_sign_percentage_witness:
  "format_warnings_dus
     \<lparr>warnings = [''a'', ''f''],
      lint_samples =
        [\<lparr>strings = [''zero''], nums = [4, 1], stats = [], examples = []\<rparr>,
         \<lparr>strings = [''negative'', ''zero'', ''nan''], nums = [200, 1, 2, 50],
          stats = [], examples = []\<rparr>]\<rparr> {} 80
   = Inr [''Flagged features and prevalence of uncommon sign(s):'',
          ''* a: zero occurred 25% of the time'',
          ''* f: negative occurred < 1% of the time, zero occurred 1% of the time, ''
          @ ''nan occurred 25% of the time'']
   \<and> usd_pct_str (times_100 (fl_div 1 200)) = ''< 1%''
   \<and> usd_pct_str (times_100 (fl_div 2 200)) = ''1%''"
proof -
  let ?sa = "\<lparr>strings = [''zero''], nums = [4, 1], stats = [], examples = []\<rparr>"
  let ?sf = "\<lparr>strings = [''negative'', ''zero'', ''nan''], nums = [200, 1, 2, 50],
          stats = [], examples = []\<rparr>"
  have h1: "length [''a''] = length [?sa]" by simp
  have h2: "warning_lines dus_line {} (zip [''a''] [?sa])
      = Inr [''* a: zero occurred 25% of the time'']"
    by (simp add: dus_line_def usd_wstr_def usd_pct_str_def USD_WFMT_def PCT_FMT_def
        str_eval fmt_eval num_eval)
  have h3: "''f'' \<notin> ({} :: string set)" by simp
  have h4: "nums ?sf = 200 # [1, 2, 50]" by simp
  have h5: "(200 :: rat) \<noteq> 0" by simp
  have h6: "list_all is_ascii (strings ?sf)" by (simp add: is_ascii_def)
  have w: "pformat (PyUnicode ''f'') MAX_LEN False = Inr ''f''"
    by (simp add: str_eval fmt_eval)
  have a: "usd_pct_str (times_100 (fl_div 1 200)) = ''< 1%''"
    using uncommon_sign_percentage [OF h1 h2 h3 h4 h5 h6,
        where sign_count = 1 and p = "Fin 1" and ws' = "[]" and ss' = "[]" and max_width = 80]
    by simp
  have b: "usd_pct_str (times_100 (fl_div 2 200)) = ''1%''"
    using uncommon_sign_percentage [OF h1 h2 h3 h4 h5 h6,
        where sign_count = 2 and p = "Fin 1" and ws' = "[]" and ss' = "[]" and max_width = 80]
    by simp
  have c: "usd_pct_str (times_100 (fl_div 50 200)) = ''25%''"
    by (simp add: usd_pct_str_def PCT_FMT_def num_eval)
  have d: "format_warnings_dus \<lparr>warnings = [''a'', ''f''], lint_samples = [?sa, ?sf]\<rparr> {} 80
     = Inr [''Flagged features and prevalence of uncommon sign(s):'',
          ''* a: zero occurred 25% of the time'',
          ''* f: negative occurred < 1% of the time, zero occurred 1% of the time, ''
          @ ''nan occurred 25% of the time'']"
    using uncommon_sign_percentage [OF h1 h2 h3 h4 h5 h6,
        where sign_count = 1 and p = "Fin 1" and ws' = "[]" and ss' = "[]" and max_width = 80,
        THEN conjunct1] w
    by (simp add: a b c USD_PREAMBLE_def)
  from d a b show ?thesis by blast
qed

subsection \<open>The statistics that a warning names\<close>

lemma format_g_1_5: "format_g 5 (3 / 2) = ''1.5''"
  by (simp add: num_eval)

lemma format_g_0_25: "format_g 5 (1 / 4) = ''0.25''"
  by (simp add: num_eval)

text \<open>
  Claim C6. In the formatter of NonNormalNumericFeatureDetector the warning
  \<open>height:mean,std_dev\<close>, paired with a sample whose first statistics record has the mean
  1.5 and the standard deviation 0.25, gives the line
  \<open>* height had mean = 1.5, std_dev = 0.25\<close>: only the statistics named after the colon,
  in their order, with 5 significant digits.
\<close>

theorem nfnr_named_statistics:
  assumes "stats s0 = ds_stats # dss" and "stats s1 = st # sts"
    and "mean st = 1.5" and "std_dev st = 0.25" and "''height'' \<notin> suppress"
  shows "format_warnings_nfnr
           \<lparr>warnings = [''height:mean,std_dev''], lint_samples = [s0, s1]\<rparr> suppress max_width
         = Inr [NFNR_PREAMBLE (mean ds_stats) (std_dev ds_stats),
                ''* height had mean = 1.5, std_dev = 0.25'']"
proof -
  have sp: "split (CHR '':'') ''height:mean,std_dev'' = [''height'', ''mean,std_dev'']"
    by simp
  have sc: "split (CHR '','') ''mean,std_dev'' = [''mean'', ''std_dev'']"
    by simp
  have g1: "nfnr_stat_warning st ''mean'' = Inr ''mean = 1.5''"
    by (simp add: nfnr_stat_warning_def getattr_def NFNR_STATFMT_def is_ascii_def
        encode_ascii_def assms(3) format_g_1_5)
  have g2: "nfnr_stat_warning st ''std_dev'' = Inr ''std_dev = 0.25''"
    by (simp add: nfnr_stat_warning_def getattr_def NFNR_STATFMT_def is_ascii_def
        encode_ascii_def assms(4) format_g_0_25)
  have w: "pformat (PyUnicode ''height'') MAX_LEN False = Inr ''height''"
    by (simp add: str_eval fmt_eval)
  have "nfnr_line ''height'' [''mean'', ''std_dev''] s1
          = Inr ''* height had mean = 1.5, std_dev = 0.25''"
    using assms(2) by (simp add: nfnr_line_def g1 g2 w NFNR_WFMT_def LI_def)
  then show ?thesis
    using assms(1,5) by (simp add: format_warnings_nfnr_def with_preamble_def sp sc)
qed

theorem nfnr_named_statistics_witness:
  "format_warnings_nfnr
     \<lparr>warnings = [''height:mean,std_dev''],
      lint_samples =
        [\<lparr>strings = [], nums = [],
          stats = [\<lparr>id' = '''', mean = 12345.678, std_dev = 2, min' = 0, max' = 0, count = 0, others = Map.empty\<rparr>],
          examples = []\<rparr>,
         \<lparr>strings = [], nums = [],
          stats = [\<lparr>id' = '''', mean = 1.5, std_dev = 0.25, min' = 1, max' = 2, count = 9, others = Map.empty\<rparr>],
          examples = []\<rparr>]\<rparr> {} 80
   = Inr [''A '' @ [squote] @ ''typical'' @ [squote]
          @ '' numeric feature in the dataset has mean 1.23e+04 and std dev 2 but'',
          ''* height had mean = 1.5, std_dev = 0.25'']"
  using nfnr_named_statistics
    [of "\<lparr>strings = [], nums = [],
          stats = [\<lparr>id' = '''', mean = 12345.678, std_dev = 2, min' = 0, max' = 0, count = 0, others = Map.empty\<rparr>],
          examples = []\<rparr>"
        "\<lparr>id' = '''', mean = 12345.678, std_dev = 2, min' = 0, max' = 0, count = 0, others = Map.empty\<rparr>" "[]"
        "\<lparr>strings = [], nums = [],
          stats = [\<lparr>id' = '''', mean = 1.5, std_dev = 0.25, min' = 1, max' = 2, count = 9, others = Map.empty\<rparr>],
          examples = []\<rparr>"
        "\<lparr>id' = '''', mean = 1.5, std_dev = 0.25, min' = 1, max' = 2, count = 9, others = Map.empty\<rparr>" "[]"
        "{}" 80]
  by (simp add: NFNR_PREAMBLE_def num_eval)

subsection \<open>A warning without its list of statistics\<close>

lemma nfnr_lines_append:
  "nfnr_lines suppress (ps @ qs) =
     (case nfnr_lines suppress ps of
        Inl e \<Rightarrow> Inl e
      | Inr ls \<Rightarrow> (case nfnr_lines suppress qs of
                     Inl e \<Rightarrow> Inl e | Inr ls' \<Rightarrow> Inr (ls @ ls')))"
proof (induction ps)
  case Nil
  show ?case by (simp split: sum.splits)
next
  case (Cons p ps)
  obtain w s where p: "p = (w, s)" by (cases p)
  show ?case
    unfolding p using Cons.IH
    by (simp split: list.splits sum.splits add: Let_def)
qed

lemma nfnr_lines_malformed:
  assumes "length (split (CHR '':'') warning) \<noteq> 2"
  shows "nfnr_lines suppress ((warning, sample) # rest) = Inl ValueError"
proof (cases "split (CHR '':'') warning")
  case Nil
  then show ?thesis by simp
next
  case (Cons a as)
  note c1 = Cons
  show ?thesis
  proof (cases as)
    case Nil
    with c1 show ?thesis by simp
  next
    case (Cons b bs)
    with c1 assms obtain c cs where "bs = c # cs" by (cases bs) auto
    with c1 Cons show ?thesis by simp
  qed
qed

text \<open>
  Claim C7, as stated: for every warning that lacks the part after the colon, the
  formatter of NonNormalNumericFeatureDetector raises a parsing error. It does not for
  a warning that has no sample to be paired with: the loop never reaches it, and the
  formatter returns its preamble.
\<close>

theorem malformed_warning_counterexample:
  "format_warnings_nfnr
     \<lparr>warnings = [''height''],
      lint_samples =
        [\<lparr>strings = [], nums = [],
          stats = [\<lparr>id' = '''', mean = 0, std_dev = 0, min' = 0, max' = 0, count = 0, others = Map.empty\<rparr>],
          examples = []\<rparr>]\<rparr> {} MAX_WIDTH
   = Inr [''A '' @ [squote] @ ''typical'' @ [squote]
          @ '' numeric feature in the dataset has mean 0 and std dev 0 but'']"
  by (simp add: format_warnings_nfnr_def with_preamble_def NFNR_PREAMBLE_def format_g_def)

text \<open>
  Claim C7, amended. A warning that does not have exactly one colon makes the formatter
  raise \<^verbatim>\<open>ValueError\<close>, suppressed or not, when the loop reaches it: the first sample
  has a statistics record, the warning has a sample to be paired with, and the pairs
  before it were formatted without an exception.
\<close>

theorem malformed_warning_raises:
  assumes "length (split (CHR '':'') warning) \<noteq> 2"
    and "stats s0 \<noteq> []"
    and "length ws < length samples"
    and "nfnr_lines suppress (zip ws samples) = Inr ls"
  shows "format_warnings_nfnr
           \<lparr>warnings = ws @ warning # ws', lint_samples = s0 # samples\<rparr> suppress max_width
         = Inl ValueError"
proof -
  obtain s rest where d: "drop (length ws) samples = s # rest"
    using assms(3) by (cases "drop (length ws) samples") auto
  have "zip (ws @ warning # ws') samples
          = zip ws (take (length ws) samples) @ zip (warning # ws') (drop (length ws) samples)"
    by (rule zip_append1)
  also have "zip ws (take (length ws) samples) = zip ws samples"
    by (induction ws samples rule: list_induct2') simp_all
  finally have z: "zip (ws @ warning # ws') samples
      = zip ws samples @ (warning, s) # zip ws' rest"
    using d by simp
  have m: "nfnr_lines suppress ((warning, s) # zip ws' rest) = Inl ValueError"
    by (rule nfnr_lines_malformed [OF assms(1)])
  have "nfnr_lines suppress (zip ws samples @ (warning, s) # zip ws' rest) = Inl ValueError"
    unfolding nfnr_lines_append assms(4) m by simp
  then have "nfnr_lines suppress (zip (ws @ warning # ws') samples) = Inl ValueError"
    unfolding z .
  moreover obtain ds dss where "stats s0 = ds # dss"
    using assms(2) by (cases "stats s0") auto
  ultimately show ?thesis
    by (simp add: format_warnings_nfnr_def with_preamble_def)
qed

theorem malformed_warning_raises_witness:
  "length (split (CHR '':'') ''height'') \<noteq> 2
   \<and> length (split (CHR '':'') ''a:b:c'') \<noteq> 2
   \<and> format_warnings_nfnr
       \<lparr>warnings = [''weight:mean'', ''height'', ''age:mean''],
        lint_samples =
          [\<lparr>strings = [], nums = [],
            stats = [\<lparr>id' = '''', mean = 0, std_dev = 0, min' = 0, max' = 0, count = 0, others = Map.empty\<rparr>],
            examples = []\<rparr>,
           \<lparr>strings = [], nums = [],
            stats = [\<lparr>id' = '''', mean = 3 / 2, std_dev = 0, min' = 0, max' = 0, count = 0, others = Map.empty\<rparr>],
            examples = []\<rparr>,
           \<lparr>strings = [], nums = [], stats = [], examples = []\<rparr>]\<rparr> {''height''} 80
     = Inl ValueError"
proof -
  have h1: "length (split (CHR '':'') ''height'') \<noteq> 2" by simp
  have h2: "stats \<lparr>strings = [], nums = [],
            stats = [\<lparr>id' = '''', mean = 0, std_dev = 0, min' = 0, max' = 0, count = 0, others = Map.empty\<rparr>],
            examples = []\<rparr> \<noteq> []" by simp
  have h3: "length [''weight:mean'']
      < length [\<lparr>strings = [], nums = [],
            stats = [\<lparr>id' = '''', mean = 3 / 2, std_dev = 0, min' = 0, max' = 0, count = 0, others = Map.empty\<rparr>],
            examples = []\<rparr>,
           \<lparr>strings = [], nums = [], stats = [], examples = []\<rparr>]" by simp
  have h4: "nfnr_lines {''height''} (zip [''weight:mean'']
        [\<lparr>strings = [], nums = [],
            stats = [\<lparr>id' = '''', mean = 3 / 2, std_dev = 0, min' = 0, max' = 0, count = 0, others = Map.empty\<rparr>],
            examples = []\<rparr>,
           \<lparr>strings = [], nums = [], stats = [], examples = []\<rparr>])
      = Inr [''* weight had mean = 1.5'']"
    by (simp add: nfnr_line_def nfnr_stat_warning_def getattr_def NFNR_STATFMT_def
        NFNR_WFMT_def format_g_1_5 str_eval fmt_eval)
  show ?thesis
    using malformed_warning_raises [OF h1 h2 h3 h4, of "[''age:mean'']" 80] by simp
qed

subsection \<open>The table of duplicate examples\<close>

lemmas dd_eval =
  format_warnings_dd_def dd_group_strs_def dd_groups_def dd_columns_def dd_cols_def
  col_group_str_def cg_lines_def borders_def group_cols_def add_col_def col_width_def
  dd_cell_def feature_vals_def DD_PREAMBLE_def DD_MAX_VAL_LEN_def DD_MAX_COLS_def
  BORDER_SZ_def COLSEP_def

text \<open>The table of a group of columns has a rule, the heading, a rule, one row for each
  example and a last rule.\<close>

lemma cg_lines_length:
  "cg_lines n_egs n i col_group = Inr ls \<Longrightarrow> length ls = n_egs + 4"
  by (auto simp: cg_lines_def Let_def split: sum.splits)

lemma length_center: "length (center s w) = max w (length s)"
proof (cases "w \<le> length s")
  case True
  then show ?thesis by (simp add: center_def max_def)
next
  case False
  then have "(w - length s) div 2 + (if odd (w - length s) \<and> odd w then 1 else 0) \<le> w - length s"
    by (cases "odd (w - length s)") (auto elim: oddE)
  with False show ?thesis by (simp add: center_def Let_def max_def)
qed

text \<open>
  Claim C2. In the table of duplicate examples, with N examples whose values are
  printed in fewer than 20 characters, the table of every group of columns has N rows
  besides its heading and its rules, and no line is longer than \<open>max_width\<close>. The
  second part fails on the code: a column that opens a new group is not counted in the
  width of this group (\<^verbatim>\<open>tot_width = 0\<close>), so that every group but the first may take
  one column too many. With eight features whose names have 15, 15, 15, 15, 15, 15, 15
  and 14 characters, one example whose values are all printed as \<open>1.5\<close>, and the default
  width of 80, the second group has five columns and its lines have 89 characters.
\<close>

theorem dd_line_exceeds_max_width:
  "format_warnings_dd
     \<lparr>warnings = [''2''],
      lint_samples = [\<lparr>strings = [], nums = [], stats = [],
        examples = [[(''aaaaaaaaaaaaaaa'', FloatList [1.5]), (''bbbbbbbbbbbbbbb'', FloatList [1.5]),
                     (''ccccccccccccccc'', FloatList [1.5]), (''ddddddddddddddd'', FloatList [1.5]),
                     (''eeeeeeeeeeeeeee'', FloatList [1.5]), (''fffffffffffffff'', FloatList [1.5]),
                     (''ggggggggggggggg'', FloatList [1.5]), (''hhhhhhhhhhhhhh'', FloatList [1.5])]]\<rparr>]\<rparr>
     {} MAX_WIDTH
   = Inr [''Found 2 exact duplicate examples, 1 of which are shown below.'',
          join [newline]
            [''------------------------------------------------------'',
             ''| aaaaaaaaaaaaaaa | bbbbbbbbbbbbbbb | ccccccccccccccc '',
             ''------------------------------------------------------'',
             ''|       1.5       |       1.5       |       1.5       '',
             ''------------------------------------------------------'',
             [],
             ''-----------------------------------------------------------------------------------------'',
             '' ddddddddddddddd | eeeeeeeeeeeeeee | fffffffffffffff | ggggggggggggggg | hhhhhhhhhhhhhh |'',
             ''-----------------------------------------------------------------------------------------'',
             ''       1.5       |       1.5       |       1.5       |       1.5       |      1.5       |'',
             ''-----------------------------------------------------------------------------------------'']]
   \<and> MAX_WIDTH
       < int (length '' ddddddddddddddd | eeeeeeeeeeeeeee | fffffffffffffff | ggggggggggggggg | hhhhhhhhhhhhhh |'')"
  by (simp add: dd_eval str_eval fmt_eval num_eval)

subsection \<open>Formatters that always return\<close>

lemma traverse_total:
  "(\<And>x. x \<in> set xs \<Longrightarrow> \<exists>y. f x = Inr y) \<Longrightarrow> \<exists>ys. traverse f xs = Inr ys"
proof (induction xs)
  case Nil
  show ?case by simp
next
  case (Cons x xs)
  from Cons.prems [of x] obtain y where y: "f x = Inr y" by auto
  from Cons.IH Cons.prems obtain ys where ys: "traverse f xs = Inr ys" by auto
  show ?case by (simp add: y ys)
qed

lemma pformat_total:
  "(\<And>i. unwrap obj \<noteq> PyInt i) \<Longrightarrow> \<exists>t. pformat obj max_len quote = Inr t"
  by (cases "unwrap obj") (auto simp: pformat_def is_number_def Let_def)

lemma format_warning_sample_pair_total:
  "\<exists>l. format_warning_sample_pair warning sample quote_vals = Inr l"
proof -
  let ?vals = "if strings sample \<noteq> [] then map PyUnicode (strings sample)
               else map PyFloat (nums sample)"
  have "\<exists>vs. traverse (\<lambda>v. pformat v MAX_LEN quote_vals) ?vals = Inr vs"
  proof (rule traverse_total)
    fix x assume "x \<in> set ?vals"
    then have "\<And>i. unwrap x \<noteq> PyInt i"
      by (auto simp: unwrap_def split: if_splits)
    then show "\<exists>y. pformat x MAX_LEN quote_vals = Inr y"
      by (rule pformat_total)
  qed
  then obtain vs where "traverse (\<lambda>v. pformat v MAX_LEN quote_vals) ?vals = Inr vs" ..
  then show ?thesis
    by (simp add: format_warning_sample_pair_def pformat_text Let_def)
qed

lemma format_warning_sample_pair_empty:
  "strings sample = [] \<Longrightarrow> nums sample = [] \<Longrightarrow>
     format_warning_sample_pair warning sample quote_vals
       = (case pformat (PyUnicode warning) MAX_LEN False of
            Inl e \<Rightarrow> Inl e | Inr wstr \<Rightarrow> Inr (''* '' @ wstr @ '': '' @ wstr))"
  by (simp add: format_warning_sample_pair_def pformat_text LI_SAMP_def LI_def)

lemma warning_lines_total:
  "(\<And>w s. \<exists>l. body w s = Inr l) \<Longrightarrow> \<exists>ls. warning_lines body suppress ps = Inr ls"
proof (induction ps)
  case Nil
  show ?case by simp
next
  case (Cons p ps)
  obtain w s where p: "p = (w, s)" by (cases p)
  from Cons.prems [of w s] obtain l where l: "body w s = Inr l" ..
  from Cons.IH Cons.prems obtain ls where ls: "warning_lines body suppress ps = Inr ls"
    by blast
  show ?case by (simp add: p l ls)
qed

lemma warning_lines_length:
  "warning_lines body suppress ps = Inr ls \<Longrightarrow>
     length ls = length (filter (\<lambda>w. w \<notin> suppress) (map fst ps))"
proof (induction ps arbitrary: ls)
  case Nil
  then show ?case by simp
next
  case (Cons p ps)
  obtain w s where p: "p = (w, s)" by (cases p)
  show ?case
  proof (cases "w \<in> suppress")
    case True
    with Cons show ?thesis by (simp add: p)
  next
    case False
    with Cons.prems obtain l ls' where
      "warning_lines body suppress ps = Inr ls'" "ls = l # ls'"
      by (auto simp: p split: sum.splits)
    with Cons.IH [of ls'] False show ?thesis by (simp add: p)
  qed
qed

text \<open>The line of a pair with a sample without values, in a formatter that prints the
  pairs with \<^verbatim>\<open>_format_warning_sample_pair\<close>.\<close>

lemma pair_line_of_empty_sample:
  assumes "length ws = length ss" and "warning \<notin> suppress"
    and "strings sample = []" and "nums sample = []"
  shows "\<exists>wstr out. pformat (PyUnicode warning) MAX_LEN False = Inr wstr
         \<and> with_preamble p
           (warning_lines (\<lambda>warning samp. format_warning_sample_pair warning samp quote_vals)
              suppress (zip (ws @ warning # ws') (ss @ sample # ss'))) = Inr out
         \<and> out ! Suc (length (filter (\<lambda>w. w \<notin> suppress) ws))
             = ''* '' @ wstr @ '': '' @ wstr"
proof -
  let ?body = "\<lambda>warning samp. format_warning_sample_pair warning samp quote_vals"
  have t: "\<And>w s. \<exists>l. ?body w s = Inr l"
    by (rule format_warning_sample_pair_total)
  obtain ls where ls: "warning_lines ?body suppress (zip ws ss) = Inr ls"
    using warning_lines_total [of ?body suppress "zip ws ss", OF t] ..
  obtain lines where lines:
    "warning_lines ?body suppress (zip (ws @ warning # ws') (ss @ sample # ss')) = Inr lines"
    using warning_lines_total [of ?body suppress "zip (ws @ warning # ws') (ss @ sample # ss')", OF t] ..
  obtain wstr where w: "pformat (PyUnicode warning) MAX_LEN False = Inr wstr"
    by (simp add: pformat_text)
  have l: "?body warning sample = Inr (''* '' @ wstr @ '': '' @ wstr)"
    using format_warning_sample_pair_empty [OF assms(3,4), of warning quote_vals] w by simp
  have "lines ! length ls = ''* '' @ wstr @ '': '' @ wstr"
    by (rule warning_lines_line [OF assms(1) ls assms(2) l lines])
  moreover have "length ls = length (filter (\<lambda>w. w \<notin> suppress) ws)"
    using warning_lines_length [OF ls] assms(1) by simp
  ultimately show ?thesis
    by (simp add: lines w with_preamble_def)
qed

subsection \<open>The rows of the table of duplicate examples\<close>

lemma is_ascii_append: "is_ascii (a @ b) \<longleftrightarrow> is_ascii a \<and> is_ascii b"
  by (simp add: is_ascii_def)

lemma is_ascii_blanks: "is_ascii (replicate n (CHR '' ''))"
  by (simp add: is_ascii_def list_all_iff)

lemma is_ascii_cram: "is_ascii s \<Longrightarrow> is_ascii (cram s n)"
  by (auto simp: cram_def Let_def is_ascii_def list_all_iff dest: in_set_takeD in_set_dropD)

lemma is_ascii_center: "is_ascii s \<Longrightarrow> is_ascii (center s w)"
  by (simp add: center_def Let_def is_ascii_append is_ascii_blanks)

lemma is_ascii_join:
  "is_ascii sep \<Longrightarrow> (\<And>x. x \<in> set xs \<Longrightarrow> is_ascii x) \<Longrightarrow> is_ascii (join sep xs)"
  by (induction sep xs rule: join.induct) (simp_all add: is_ascii_append is_ascii_def)

text \<open>The groups of columns hold the columns, in their order.\<close>

lemma foldl_add_col:
  "gs \<noteq> [] \<Longrightarrow>
     fst (foldl (add_col max_width) (gs, t) cols) \<noteq> []
     \<and> concat (fst (foldl (add_col max_width) (gs, t) cols)) = concat gs @ cols"
proof (induction cols arbitrary: gs t)
  case Nil
  then show ?case by simp
next
  case (Cons c cols)
  obtain gs' t' where s: "add_col max_width (gs, t) c = (gs', t')"
    by (cases "add_col max_width (gs, t) c")
  have "concat (butlast gs @ [last gs]) = concat gs"
    using Cons.prems by simp
  then have c: "concat (butlast gs) @ last gs = concat gs"
    by simp
  have g: "gs' \<noteq> [] \<and> concat gs' = concat gs @ [c]"
    using s c by (auto simp: add_col_def Let_def split: if_splits)
  with Cons.IH [of gs' t'] show ?case
    by (simp add: s)
qed

lemma concat_group_cols: "concat (group_cols max_width cols) = cols"
  using foldl_add_col [of "[[]]" max_width 0 cols] by (simp add: group_cols_def)

lemma dd_columns_member:
  assumes "c \<in> set (dd_columns cols rows)"
  shows "\<exists>k<length cols. col_name c = cols ! k \<and> col_cells c = map (\<lambda>row. row ! k) rows"
proof -
  from assms obtain k col where
    kc: "(k, col) \<in> set (zip [0..<length cols] cols)"
    and c: "c = \<lparr>col_name = col, col_w = col_width col (map (\<lambda>row. row ! k) rows),
                  col_cells = map (\<lambda>row. row ! k) rows\<rparr>"
    by (auto simp: dd_columns_def Let_def)
  from kc obtain n where "n < length cols" "k = [0..<length cols] ! n" "col = cols ! n"
    by (auto simp: in_set_zip)
  then have "k < length cols" "col = cols ! k" by simp_all
  with c show ?thesis by auto
qed

text \<open>Reading the cell of an example never raises.\<close>

lemma dd_cell_total: "\<exists>t. dd_cell eg col = Inr t"
proof (cases "map_of eg col")
  case None
  then show ?thesis by (simp add: dd_cell_def)
next
  case (Some feature)
  show ?thesis
  proof (cases "feature_vals feature")
    case None
    with Some show ?thesis by (simp add: dd_cell_def)
  next
    case (Some vals)
    note v = Some
    have "\<And>i. unwrap (PyList vals) \<noteq> PyInt i"
      using v by (cases feature)
        (auto simp: feature_vals_def unwrap_def split: list.splits pyobj.splits)
    then obtain t where "pformat (PyList vals) DD_MAX_VAL_LEN True = Inr t"
      using pformat_total by blast
    with v \<open>map_of eg col = Some feature\<close> show ?thesis by (simp add: dd_cell_def)
  qed
qed

lemma dd_cell_no_values: "no_values eg col \<Longrightarrow> dd_cell eg col = Inr []"
  by (auto simp: no_values_def dd_cell_def split: option.splits)

lemma center_empty: "center [] w = replicate w (CHR '' '')"
proof -
  have "w div 2 + (if odd w then 1 else 0) \<le> w"
    by (cases "odd w") (auto elim: oddE)
  then have e: "w div 2 + (if odd w then 1 else 0) + (w - (w div 2 + (if odd w then 1 else 0))) = w"
    by simp
  have "replicate (w div 2 + (if odd w then 1 else 0)) (CHR '' '')
        @ replicate (w - (w div 2 + (if odd w then 1 else 0))) (CHR '' '')
        = replicate w (CHR '' '')"
    unfolding replicate_add [symmetric] e ..
  then show ?thesis
    by (cases "w = 0") (simp_all add: center_def Let_def)
qed

lemma cg_lines_row:
  assumes "cg_lines n_egs n i col_group = Inr ls" and "j < n_egs"
  shows "ls ! (3 + j)
     = borders i n (join COLSEP (map (\<lambda>c. center (col_cells c ! j) (col_w c)) col_group))"
proof -
  have "(a # b # c # xs) ! (3 + j) = xs ! j" for a b c :: string and xs
    by (simp add: numeral_3_eq_3)
  then show ?thesis
    using assms by (auto simp: cg_lines_def Let_def nth_append split: sum.splits)
qed

lemma cg_lines_total:
  assumes "\<And>c. c \<in> set col_group \<Longrightarrow> is_ascii (col_name c)"
  shows "\<exists>ls. cg_lines n_egs n i col_group = Inr ls"
proof -
  have "is_ascii COLSEP" by (simp add: COLSEP_def is_ascii_def)
  then have "is_ascii
      (join COLSEP (map (\<lambda>c. center (cram (col_name c) (col_w c)) (col_w c)) col_group))"
  proof (rule is_ascii_join)
    fix x assume "x \<in> set (map (\<lambda>c. center (cram (col_name c) (col_w c)) (col_w c)) col_group)"
    then obtain c where "c \<in> set col_group" "x = center (cram (col_name c) (col_w c)) (col_w c)"
      by auto
    with assms show "is_ascii x"
      by (simp add: is_ascii_center is_ascii_cram)
  qed
  then show ?thesis
    by (simp add: cg_lines_def encode_ascii_def Let_def)
qed

lemma dd_cols_subset: "col \<in> set (dd_cols egs) \<Longrightarrow> \<exists>eg\<in>set egs. col \<in> fst ` set eg"
  by (auto simp: dd_cols_def dest!: in_set_takeD)

text \<open>The columns of the groups have the names of features, and their cells are what
  reading the cell of each example gave.\<close>

lemma dd_groups_cells:
  "\<exists>groups. dd_groups egs max_width = Inr groups
     \<and> (\<forall>g\<in>set groups. \<forall>c\<in>set g.
           col_name c \<in> set (dd_cols egs)
           \<and> (\<forall>j<length egs. dd_cell (egs ! j) (col_name c) = Inr (col_cells c ! j)))"
proof -
  let ?cols = "dd_cols egs"
  have "\<exists>rows. traverse (\<lambda>eg. traverse (dd_cell eg) ?cols) egs = Inr rows"
    by (rule traverse_total, rule traverse_total, rule dd_cell_total)
  then obtain rows where rows: "traverse (\<lambda>eg. traverse (dd_cell eg) ?cols) egs = Inr rows" ..
  have g: "dd_groups egs max_width = Inr (group_cols max_width (dd_columns ?cols rows))"
    by (simp add: dd_groups_def Let_def rows)
  from traverse_Inr [OF rows] have lr: "length rows = length egs"
    and r: "\<And>j. j < length egs \<Longrightarrow> traverse (dd_cell (egs ! j)) ?cols = Inr (rows ! j)"
    by auto
  have "col_name c \<in> set ?cols
           \<and> (\<forall>j<length egs. dd_cell (egs ! j) (col_name c) = Inr (col_cells c ! j))"
    if gr: "gr \<in> set (group_cols max_width (dd_columns ?cols rows))" and c: "c \<in> set gr"
    for gr c
  proof -
    from gr c have "c \<in> set (concat (group_cols max_width (dd_columns ?cols rows)))"
      by auto
    then have "c \<in> set (dd_columns ?cols rows)"
      by (simp only: concat_group_cols)
    then obtain k where k: "k < length ?cols" "col_name c = ?cols ! k"
      "col_cells c = map (\<lambda>row. row ! k) rows"
      using dd_columns_member by blast
    have "dd_cell (egs ! j) (col_name c) = Inr (col_cells c ! j)" if j: "j < length egs" for j
    proof -
      from traverse_Inr [OF r [OF j]] k(1)
      have "dd_cell (egs ! j) (?cols ! k) = Inr (rows ! j ! k)" by auto
      then show ?thesis using k j lr by simp
    qed
    with k show ?thesis by auto
  qed
  with g show ?thesis by blast
qed

text \<open>The table of duplicate examples, when the warning and the names of the features
  are ASCII text: the formatter returns, and in the table of every group of columns the
  row of an example has blanks, as wide as the column, for each feature without
  values.\<close>

lemma format_warnings_dd_rows:
  assumes "lint_samples result = s0 # rest" and "warnings result = w # ws0"
    and "is_ascii w"
    and names: "\<And>eg col. eg \<in> set (examples s0) \<Longrightarrow> col \<in> fst ` set eg \<Longrightarrow> is_ascii col"
  shows "\<exists>out preamble groups tables.
           format_warnings_dd result suppress max_width = Inr out
         \<and> DD_PREAMBLE w (length (examples s0)) = Inr preamble
         \<and> dd_groups (examples s0) max_width = Inr groups
         \<and> length tables = length groups
         \<and> out = [preamble, join [newline, newline] (map (join [newline]) tables)]
         \<and> (\<forall>i<length groups.
               length (tables ! i) = length (examples s0) + 4
               \<and> (\<forall>j<length (examples s0).
                 tables ! i ! (3 + j) =
                   borders (Suc i) (length groups)
                     (join COLSEP
                        (map (\<lambda>c. if no_values (examples s0 ! j) (col_name c)
                                  then replicate (col_w c) (CHR '' '')
                                  else center (col_cells c ! j) (col_w c))
                           (groups ! i)))))"
proof -
  let ?egs = "examples s0"
  let ?m = "length ?egs"
  obtain groups where G: "dd_groups ?egs max_width = Inr groups"
    and cells: "\<And>g c. g \<in> set groups \<Longrightarrow> c \<in> set g \<Longrightarrow>
           col_name c \<in> set (dd_cols ?egs)
           \<and> (\<forall>j<?m. dd_cell (?egs ! j) (col_name c) = Inr (col_cells c ! j))"
    using dd_groups_cells [of ?egs max_width] by blast
  let ?n = "length groups"
  define tables where
    "tables = map (\<lambda>k. projr (cg_lines ?m ?n (Suc k) (groups ! k))) [0..<?n]"
  have lt: "length tables = ?n" by (simp add: tables_def)
  have cg: "cg_lines ?m ?n (Suc k) (groups ! k) = Inr (tables ! k)" if k: "k < ?n" for k
  proof -
    have "is_ascii (col_name c)" if "c \<in> set (groups ! k)" for c
    proof -
      from cells [of "groups ! k" c] k that have "col_name c \<in> set (dd_cols ?egs)" by simp
      then show ?thesis using dd_cols_subset names by blast
    qed
    then obtain ls where "cg_lines ?m ?n (Suc k) (groups ! k) = Inr ls"
      using cg_lines_total by blast
    then show ?thesis using k by (simp add: tables_def)
  qed
  have "traverse (\<lambda>(i, g). col_group_str ?m ?n i g) (zip [1..<Suc ?n] groups)
        = Inr (map (join [newline]) tables)"
  proof -
    have u: "[1..<Suc ?n] = map Suc [0..<?n]"
      by (simp only: map_Suc_upt One_nat_def)
    have z: "zip [1..<Suc ?n] groups = map (\<lambda>k. (Suc k, groups ! k)) [0..<?n]"
      unfolding u by (rule nth_equalityI) simp_all
    have "traverse (\<lambda>(i, g). col_group_str ?m ?n i g) (map (\<lambda>k. (Suc k, groups ! k)) [0..<?n])
        = Inr (map (\<lambda>p. join [newline] (tables ! (fst p - 1))) (map (\<lambda>k. (Suc k, groups ! k)) [0..<?n]))"
      by (rule traverse_map) (auto simp: col_group_str_def cg)
    also have "map (\<lambda>p. join [newline] (tables ! (fst p - 1))) (map (\<lambda>k. (Suc k, groups ! k)) [0..<?n])
        = map (join [newline]) tables"
      by (rule nth_equalityI) (simp_all add: lt)
    finally show ?thesis by (simp only: z)
  qed
  then have S: "dd_group_strs ?egs max_width = Inr (map (join [newline]) tables)"
    by (simp add: dd_group_strs_def G Let_def)
  obtain preamble where P: "DD_PREAMBLE w ?m = Inr preamble"
    using assms(3) by (simp add: DD_PREAMBLE_def encode_ascii_def)
  have out: "format_warnings_dd result suppress max_width
      = Inr [preamble, join [newline, newline] (map (join [newline]) tables)]"
    by (simp add: format_warnings_dd_def assms(1,2) Let_def P S)
  have row: "tables ! i ! (3 + j) =
      borders (Suc i) ?n
        (join COLSEP
           (map (\<lambda>c. if no_values (?egs ! j) (col_name c)
                     then replicate (col_w c) (CHR '' '')
                     else center (col_cells c ! j) (col_w c))
              (groups ! i)))"
    if i: "i < ?n" and j: "j < ?m" for i j
  proof -
    have "map (\<lambda>c. center (col_cells c ! j) (col_w c)) (groups ! i)
        = map (\<lambda>c. if no_values (?egs ! j) (col_name c)
                     then replicate (col_w c) (CHR '' '')
                     else center (col_cells c ! j) (col_w c)) (groups ! i)"
    proof (rule map_cong [OF refl])
      fix c assume c: "c \<in> set (groups ! i)"
      show "center (col_cells c ! j) (col_w c)
          = (if no_values (?egs ! j) (col_name c) then replicate (col_w c) (CHR '' '')
             else center (col_cells c ! j) (col_w c))"
      proof (cases "no_values (?egs ! j) (col_name c)")
        case True
        from cells [of "groups ! i" c] i c j
        have "dd_cell (?egs ! j) (col_name c) = Inr (col_cells c ! j)" by simp
        with dd_cell_no_values [OF True] have "col_cells c ! j = []" by simp
        with True show ?thesis by (simp add: center_empty)
      next
        case False
        then show ?thesis by simp
      qed
    qed
    with cg_lines_row [OF cg [OF i] j] show ?thesis by simp
  qed
  have len: "length (tables ! i) = ?m + 4" if "i < ?n" for i
    by (rule cg_lines_length [OF cg [OF that]])
  from out P G lt row len show ?thesis by blast
qed

subsection \<open>Samples and features without values\<close>

text \<open>A formatter that reads the first number of a sample, or its first record of
  statistics, raises \<^verbatim>\<open>IndexError\<close> when its loop reaches a sample that has none.\<close>

lemma nfnr_lines_reached:
  assumes "length ws = length ss"
    and "nfnr_lines suppress (zip ws ss) = Inr ls"
    and "split (CHR '':'') warning = [warned_feature, warning_stats]"
    and "warned_feature \<notin> suppress" and "stats sample = []"
  shows "nfnr_lines suppress (zip (ws @ warning # ws') (ss @ sample # ss')) = Inl IndexError"
proof -
  have "zip (ws @ warning # ws') (ss @ sample # ss') = zip ws ss @ (warning, sample) # zip ws' ss'"
    using assms(1) by simp
  then show ?thesis
    using assms(2,3,4,5) by (simp add: nfnr_lines_append nfnr_line_def Let_def)
qed

text \<open>
  Claim C8, as stated: the warning/sample pair formatter prints an empty sample string
  when the sample has no value. It prints the warning a second time instead
  (\<^verbatim>\<open>samp_str if samp_vals else wstr\<close>). And a formatter that reads the first number
  of a sample fails on a sample without numbers.
\<close>

theorem empty_sample_counterexample:
  "format_warning_sample_pair ''a'' \<lparr>strings = [], nums = [], stats = [], examples = []\<rparr> True
     = Inr ''* a: a''
   \<and> format_warning_sample_pair ''a'' \<lparr>strings = [], nums = [], stats = [], examples = []\<rparr> True
     \<noteq> Inr ''* a: ''
   \<and> format_warnings_llo
       \<lparr>warnings = [''a''],
        lint_samples = [\<lparr>strings = [], nums = [], stats = [], examples = []\<rparr>]\<rparr> {} MAX_WIDTH
     = Inl IndexError"
  by (simp add: str_eval fmt_eval format_warnings_llo_def llo_line_def)

text \<open>
  Claim C8, amended. (1) The warning/sample pair formatter does not fail on a sample
  with neither strings nor numbers, and prints the warning again in the place of the
  values; the generic formatter and the formatter of EnumDetector, which print their
  pairs with it, return, and their line for such a sample, when its warning is not
  suppressed, is \<open>* w: w\<close>. (2) The formatter of DuplicateExampleDetector, given a sample,
  a warning in ASCII and features with names in ASCII, returns its preamble and the
  tables of the groups of columns; the table of a group has a row for every example,
  and in this row a feature that the example does not have, that has no kind, or whose
  list of values is empty, has blanks of the width of its column. (3) The formatters
  that read the first number of a sample (those of UncommonListLengthDetector and
  UncommonSignDetector) or its first statistics record (those of
  TailedDistributionDetector and NonNormalNumericFeatureDetector) raise \<^verbatim>\<open>IndexError\<close>
  when their loop reaches a sample that has none: the pairs before it were formatted
  without an exception, and its warning (for NonNormalNumericFeatureDetector, the feature
  that the well-formed warning names) is not suppressed.
\<close>

theorem empty_values_rendered:
  "(strings sample = [] \<and> nums sample = [] \<longrightarrow>
      (\<exists>wstr. pformat (PyUnicode warning) MAX_LEN False = Inr wstr
         \<and> format_warning_sample_pair warning sample quote_vals
             = Inr (''* '' @ wstr @ '': '' @ wstr)))
   \<and> (length ws = length ss \<and> warning \<notin> suppress
        \<and> strings sample = [] \<and> nums sample = [] \<longrightarrow>
      (\<exists>wstr out out'.
          pformat (PyUnicode warning) MAX_LEN False = Inr wstr
        \<and> format_warnings
            \<lparr>warnings = ws @ warning # ws', lint_samples = ss @ sample # ss'\<rparr>
            suppress max_width = Inr out
        \<and> out ! Suc (length (filter (\<lambda>w. w \<notin> suppress) ws)) = ''* '' @ wstr @ '': '' @ wstr
        \<and> format_warnings_de
            \<lparr>warnings = ws @ warning # ws', lint_samples = ss @ sample # ss'\<rparr>
            suppress max_width = Inr out'
        \<and> out' ! Suc (length (filter (\<lambda>w. w \<notin> suppress) ws)) = ''* '' @ wstr @ '': '' @ wstr))
   \<and> (lint_samples result = first_sample # more_samples \<and> warnings result = first_warning # more_warnings \<and> is_ascii first_warning
        \<and> (\<forall>eg\<in>set (examples first_sample). \<forall>col\<in>fst ` set eg. is_ascii col) \<longrightarrow>
      (\<exists>out preamble groups tables.
           format_warnings_dd result suppress max_width = Inr out
         \<and> DD_PREAMBLE first_warning (length (examples first_sample)) = Inr preamble
         \<and> dd_groups (examples first_sample) max_width = Inr groups
         \<and> length tables = length groups
         \<and> out = [preamble, join [newline, newline] (map (join [newline]) tables)]
         \<and> (\<forall>i<length groups.
               length (tables ! i) = length (examples first_sample) + 4
               \<and> (\<forall>j<length (examples first_sample).
                 tables ! i ! (3 + j) =
                   borders (Suc i) (length groups)
                     (join COLSEP
                        (map (\<lambda>c. if no_values (examples first_sample ! j) (col_name c)
                                  then replicate (col_w c) (CHR '' '')
                                  else center (col_cells c ! j) (col_w c))
                           (groups ! i)))))))
   \<and> (length ws = length ss \<and> warning \<notin> suppress \<and> nums sample = []
        \<and> (\<exists>ls. warning_lines llo_line suppress (zip ws ss) = Inr ls) \<longrightarrow>
      format_warnings_llo
        \<lparr>warnings = ws @ warning # ws', lint_samples = ss @ sample # ss'\<rparr>
        suppress max_width = Inl IndexError)
   \<and> (length ws = length ss \<and> warning \<notin> suppress \<and> nums sample = []
        \<and> (\<exists>ls. warning_lines dus_line suppress (zip ws ss) = Inr ls) \<longrightarrow>
      format_warnings_dus
        \<lparr>warnings = ws @ warning # ws', lint_samples = ss @ sample # ss'\<rparr>
        suppress max_width = Inl IndexError)
   \<and> (length ws = length ss \<and> warning \<notin> suppress \<and> stats sample = []
        \<and> (\<exists>ls. warning_lines don_line suppress (zip ws ss) = Inr ls) \<longrightarrow>
      format_warnings_don
        \<lparr>warnings = ws @ warning # ws', lint_samples = ss @ sample # ss'\<rparr>
        suppress max_width = Inl IndexError)
   \<and> (length ws = length ss
        \<and> split (CHR '':'') warning = [warned_feature, warning_stats]
        \<and> warned_feature \<notin> suppress \<and> stats sample = [] \<and> stats ds_sample \<noteq> []
        \<and> (\<exists>ls. nfnr_lines suppress (zip ws ss) = Inr ls) \<longrightarrow>
      format_warnings_nfnr
        \<lparr>warnings = ws @ warning # ws', lint_samples = ds_sample # ss @ sample # ss'\<rparr>
        suppress max_width = Inl IndexError)"
proof (intro conjI impI)
  assume "strings sample = [] \<and> nums sample = []"
  then show "\<exists>wstr. pformat (PyUnicode warning) MAX_LEN False = Inr wstr
         \<and> format_warning_sample_pair warning sample quote_vals
             = Inr (''* '' @ wstr @ '': '' @ wstr)"
    by (simp add: format_warning_sample_pair_empty pformat_text)
next
  let ?R = "\<lparr>warnings = ws @ warning # ws', lint_samples = ss @ sample # ss'\<rparr>"
  let ?k = "Suc (length (filter (\<lambda>w. w \<notin> suppress) ws))"
  assume a: "length ws = length ss \<and> warning \<notin> suppress
        \<and> strings sample = [] \<and> nums sample = []"
  obtain wstr where w: "pformat (PyUnicode warning) MAX_LEN False = Inr wstr"
    by (simp add: pformat_text)
  from a pair_line_of_empty_sample [of ws ss warning suppress sample FLAG_SAMPS_PREAMBLE True ws' ss']
  obtain out where out: "format_warnings ?R suppress max_width = Inr out"
    "out ! ?k = ''* '' @ wstr @ '': '' @ wstr"
    by (auto simp: format_warnings_def w)
  from a pair_line_of_empty_sample [of ws ss warning suppress sample FLAG_SAMPS_PREAMBLE False ws' ss']
  obtain out' where out': "format_warnings_de ?R suppress max_width = Inr out'"
    "out' ! ?k = ''* '' @ wstr @ '': '' @ wstr"
    by (auto simp: format_warnings_de_def w)
  from w out out'
  show "\<exists>wstr out out'.
          pformat (PyUnicode warning) MAX_LEN False = Inr wstr
        \<and> format_warnings ?R suppress max_width = Inr out
        \<and> out ! ?k = ''* '' @ wstr @ '': '' @ wstr
        \<and> format_warnings_de ?R suppress max_width = Inr out'
        \<and> out' ! ?k = ''* '' @ wstr @ '': '' @ wstr"
    by blast
next
  assume a: "lint_samples result = first_sample # more_samples \<and> warnings result = first_warning # more_warnings \<and> is_ascii first_warning
        \<and> (\<forall>eg\<in>set (examples first_sample). \<forall>col\<in>fst ` set eg. is_ascii col)"
  then have 1: "lint_samples result = first_sample # more_samples" and 2: "warnings result = first_warning # more_warnings"
    and 3: "is_ascii first_warning"
    and 4: "\<And>eg col. eg \<in> set (examples first_sample) \<Longrightarrow> col \<in> fst ` set eg \<Longrightarrow> is_ascii col"
    by blast+
  show "\<exists>out preamble groups tables.
           format_warnings_dd result suppress max_width = Inr out
         \<and> DD_PREAMBLE first_warning (length (examples first_sample)) = Inr preamble
         \<and> dd_groups (examples first_sample) max_width = Inr groups
         \<and> length tables = length groups
         \<and> out = [preamble, join [newline, newline] (map (join [newline]) tables)]
         \<and> (\<forall>i<length groups.
               length (tables ! i) = length (examples first_sample) + 4
               \<and> (\<forall>j<length (examples first_sample).
                 tables ! i ! (3 + j) =
                   borders (Suc i) (length groups)
                     (join COLSEP
                        (map (\<lambda>c. if no_values (examples first_sample ! j) (col_name c)
                                  then replicate (col_w c) (CHR '' '')
                                  else center (col_cells c ! j) (col_w c))
                           (groups ! i)))))"
    by (rule format_warnings_dd_rows [OF 1 2 3 4])
next
  assume "length ws = length ss \<and> warning \<notin> suppress \<and> nums sample = []
        \<and> (\<exists>ls. warning_lines llo_line suppress (zip ws ss) = Inr ls)"
  then obtain ls where a: "length ws = length ss" "warning \<notin> suppress" "nums sample = []"
    "warning_lines llo_line suppress (zip ws ss) = Inr ls"
    by blast
  have "llo_line warning sample = Inl IndexError"
    using a(3) by (simp add: llo_line_def)
  from warning_lines_reached [OF a(1) a(4) a(2) this]
  show "format_warnings_llo
        \<lparr>warnings = ws @ warning # ws', lint_samples = ss @ sample # ss'\<rparr>
        suppress max_width = Inl IndexError"
    by (simp add: format_warnings_llo_def with_preamble_Inl)
next
  assume "length ws = length ss \<and> warning \<notin> suppress \<and> nums sample = []
        \<and> (\<exists>ls. warning_lines dus_line suppress (zip ws ss) = Inr ls)"
  then obtain ls where a: "length ws = length ss" "warning \<notin> suppress" "nums sample = []"
    "warning_lines dus_line suppress (zip ws ss) = Inr ls"
    by blast
  have "dus_line warning sample = Inl IndexError"
    using a(3) by (simp add: dus_line_def)
  from warning_lines_reached [OF a(1) a(4) a(2) this]
  show "format_warnings_dus
        \<lparr>warnings = ws @ warning # ws', lint_samples = ss @ sample # ss'\<rparr>
        suppress max_width = Inl IndexError"
    by (simp add: format_warnings_dus_def with_preamble_Inl)
next
  assume "length ws = length ss \<and> warning \<notin> suppress \<and> stats sample = []
        \<and> (\<exists>ls. warning_lines don_line suppress (zip ws ss) = Inr ls)"
  then obtain ls where a: "length ws = length ss" "warning \<notin> suppress" "stats sample = []"
    "warning_lines don_line suppress (zip ws ss) = Inr ls"
    by blast
  have "don_line warning sample = Inl IndexError"
    using a(3) by (simp add: don_line_def)
  from warning_lines_reached [OF a(1) a(4) a(2) this]
  show "format_warnings_don
        \<lparr>warnings = ws @ warning # ws', lint_samples = ss @ sample # ss'\<rparr>
        suppress max_width = Inl IndexError"
    by (simp add: format_warnings_don_def with_preamble_Inl)
next
  assume "length ws = length ss
        \<and> split (CHR '':'') warning = [warned_feature, warning_stats]
        \<and> warned_feature \<notin> suppress \<and> stats sample = [] \<and> stats ds_sample \<noteq> []
        \<and> (\<exists>ls. nfnr_lines suppress (zip ws ss) = Inr ls)"
  then obtain ls where a: "length ws = length ss"
    "split (CHR '':'') warning = [warned_feature, warning_stats]"
    "warned_feature \<notin> suppress" "stats sample = []" "stats ds_sample \<noteq> []"
    "nfnr_lines suppress (zip ws ss) = Inr ls"
    by blast
  from a(5) obtain ds dss where ds: "stats ds_sample = ds # dss" by (cases "stats ds_sample") auto
  from nfnr_lines_reached [OF a(1) a(6) a(2) a(3) a(4)]
  show "format_warnings_nfnr
        \<lparr>warnings = ws @ warning # ws', lint_samples = ds_sample # ss @ sample # ss'\<rparr>
        suppress max_width = Inl IndexError"
    by (simp add: format_warnings_nfnr_def ds with_preamble_Inl)
qed

text \<open>The witness: a sample without values after a first pair, and a table of three
  examples, of which the first has no value of \<open>age\<close>, the second no feature \<open>n\<close>, and the
  third neither a kind of \<open>age\<close> nor a value of \<open>n\<close>.\<close>

theorem empty_values_rendered_witness:
  "format_warning_sample_pair ''b:mean''
       \<lparr>strings = [], nums = [], stats = [], examples = []\<rparr> False
     = Inr ''* b:mean: b:mean''
   \<and> (\<exists>out. format_warnings
         \<lparr>warnings = [''a:mean'', ''b:mean''],
          lint_samples =
            [\<lparr>strings = [''x''], nums = [4, 1],
              stats = [\<lparr>id' = ''min'', mean = 3 / 2, std_dev = 1, min' = 1, max' = 2, count = 1,
                        others = Map.empty\<rparr>,
                       \<lparr>id' = ''max'', mean = 1, std_dev = 1, min' = 3, max' = 3, count = 3,
                        others = Map.empty\<rparr>],
              examples = []\<rparr>,
             \<lparr>strings = [], nums = [], stats = [], examples = []\<rparr>]\<rparr> {} 80 = Inr out
        \<and> out ! 2 = ''* b:mean: b:mean'')
   \<and> (\<exists>out. format_warnings_de
         \<lparr>warnings = [''a:mean'', ''b:mean''],
          lint_samples =
            [\<lparr>strings = [''x''], nums = [4, 1],
              stats = [\<lparr>id' = ''min'', mean = 3 / 2, std_dev = 1, min' = 1, max' = 2, count = 1,
                        others = Map.empty\<rparr>,
                       \<lparr>id' = ''max'', mean = 1, std_dev = 1, min' = 3, max' = 3, count = 3,
                        others = Map.empty\<rparr>],
              examples = []\<rparr>,
             \<lparr>strings = [], nums = [], stats = [], examples = []\<rparr>]\<rparr> {} 80 = Inr out
        \<and> out ! 2 = ''* b:mean: b:mean'')
   \<and> (\<exists>tables. format_warnings_dd
         \<lparr>warnings = [''2''],
          lint_samples =
            [\<lparr>strings = [], nums = [], stats = [],
              examples = [[(''age'', FloatList []), (''n'', Int64List [5])],
                          [(''age'', FloatList [3 / 2])],
                          [(''age'', NoKind), (''n'', Int64List [])]]\<rparr>]\<rparr> {} 80
          = Inr [''Found 2 exact duplicate examples, 3 of which are shown below.'',
                 join [newline, newline] (map (join [newline]) tables)]
        \<and> length tables = 1 \<and> length (tables ! 0) = 7
        \<and> tables ! 0 ! 3 = ''|     | 5L |''
        \<and> tables ! 0 ! 4 = ''| 1.5 |    |''
        \<and> tables ! 0 ! 5 = ''|     |    |'')
   \<and> format_warnings_llo
         \<lparr>warnings = [''a:mean'', ''b:mean''],
          lint_samples =
            [\<lparr>strings = [''x''], nums = [4, 1],
              stats = [\<lparr>id' = ''min'', mean = 3 / 2, std_dev = 1, min' = 1, max' = 2, count = 1,
                        others = Map.empty\<rparr>,
                       \<lparr>id' = ''max'', mean = 1, std_dev = 1, min' = 3, max' = 3, count = 3,
                        others = Map.empty\<rparr>],
              examples = []\<rparr>,
             \<lparr>strings = [], nums = [], stats = [], examples = []\<rparr>]\<rparr> {} 80
       = Inl IndexError
   \<and> format_warnings_dus
         \<lparr>warnings = [''a:mean'', ''b:mean''],
          lint_samples =
            [\<lparr>strings = [''x''], nums = [4, 1],
              stats = [\<lparr>id' = ''min'', mean = 3 / 2, std_dev = 1, min' = 1, max' = 2, count = 1,
                        others = Map.empty\<rparr>,
                       \<lparr>id' = ''max'', mean = 1, std_dev = 1, min' = 3, max' = 3, count = 3,
                        others = Map.empty\<rparr>],
              examples = []\<rparr>,
             \<lparr>strings = [], nums = [], stats = [], examples = []\<rparr>]\<rparr> {} 80
       = Inl IndexError
   \<and> format_warnings_don
         \<lparr>warnings = [''a:mean'', ''b:mean''],
          lint_samples =
            [\<lparr>strings = [''x''], nums = [4, 1],
              stats = [\<lparr>id' = ''min'', mean = 3 / 2, std_dev = 1, min' = 1, max' = 2, count = 1,
                        others = Map.empty\<rparr>,
                       \<lparr>id' = ''max'', mean = 1, std_dev = 1, min' = 3, max' = 3, count = 3,
                        others = Map.empty\<rparr>],
              examples = []\<rparr>,
             \<lparr>strings = [], nums = [], stats = [], examples = []\<rparr>]\<rparr> {} 80
       = Inl IndexError
   \<and> format_warnings_nfnr
         \<lparr>warnings = [''a:mean'', ''b:mean''],
          lint_samples =
            [\<lparr>strings = [''x''], nums = [4, 1],
              stats = [\<lparr>id' = ''min'', mean = 3 / 2, std_dev = 1, min' = 1, max' = 2, count = 1,
                        others = Map.empty\<rparr>,
                       \<lparr>id' = ''max'', mean = 1, std_dev = 1, min' = 3, max' = 3, count = 3,
                        others = Map.empty\<rparr>],
              examples = []\<rparr>,
             \<lparr>strings = [''x''], nums = [4, 1],
              stats = [\<lparr>id' = ''min'', mean = 3 / 2, std_dev = 1, min' = 1, max' = 2, count = 1,
                        others = Map.empty\<rparr>,
                       \<lparr>id' = ''max'', mean = 1, std_dev = 1, min' = 3, max' = 3, count = 3,
                        others = Map.empty\<rparr>],
              examples = []\<rparr>,
             \<lparr>strings = [], nums = [], stats = [], examples = []\<rparr>]\<rparr> {} 80
       = Inl IndexError"
proof -
  let ?sa = "\<lparr>strings = [''x''], nums = [4, 1],
              stats = [\<lparr>id' = ''min'', mean = 3 / 2, std_dev = 1, min' = 1, max' = 2, count = 1,
                        others = Map.empty\<rparr>,
                       \<lparr>id' = ''max'', mean = 1, std_dev = 1, min' = 3, max' = 3, count = 3,
                        others = Map.empty\<rparr>],
              examples = []\<rparr>"
  let ?E = "\<lparr>strings = [], nums = [], stats = [], examples = []\<rparr>"
  let ?egs = "[[(''age'', FloatList []), (''n'', Int64List [5])],
               [(''age'', FloatList [3 / 2])],
               [(''age'', NoKind), (''n'', Int64List [])]]"
  let ?s0 = "\<lparr>strings = [], nums = [], stats = [], examples = ?egs\<rparr>"
  let ?Rd = "\<lparr>warnings = [''2''], lint_samples = [?s0]\<rparr>"
  note T = empty_values_rendered
    [where ws = "[''a:mean'']" and ss = "[?sa]" and warning = "''b:mean''" and suppress = "{}"
       and sample = ?E and ws' = "[]" and ss' = "[]" and max_width = 80 and quote_vals = False
       and result = ?Rd and first_sample = ?s0 and more_samples = "[]"
       and first_warning = "''2''" and more_warnings = "[]"
       and warned_feature = "''b''" and warning_stats = "''mean''" and ds_sample = ?sa]
  have w: "pformat (PyUnicode ''b:mean'') MAX_LEN False = Inr ''b:mean''"
    by (simp add: str_eval fmt_eval)
  have c1: "format_warning_sample_pair ''b:mean'' ?E False = Inr ''* b:mean: b:mean''"
    using T [THEN conjunct1] w by simp
  have c2: "(\<exists>out. format_warnings
         \<lparr>warnings = [''a:mean'', ''b:mean''], lint_samples = [?sa, ?E]\<rparr> {} 80 = Inr out
        \<and> out ! 2 = ''* b:mean: b:mean'')
     \<and> (\<exists>out. format_warnings_de
         \<lparr>warnings = [''a:mean'', ''b:mean''], lint_samples = [?sa, ?E]\<rparr> {} 80 = Inr out
        \<and> out ! 2 = ''* b:mean: b:mean'')"
    using T [THEN conjunct2, THEN conjunct1] w by (simp add: numeral_2_eq_2) blast
  have H: "lint_samples ?Rd = ?s0 # [] \<and> warnings ?Rd = ''2'' # [] \<and> is_ascii ''2''
        \<and> (\<forall>eg\<in>set (examples ?s0). \<forall>col\<in>fst ` set eg. is_ascii col)"
    by (simp add: is_ascii_def)
  from T [THEN conjunct2, THEN conjunct2, THEN conjunct1, THEN mp, OF H]
  obtain out preamble groups tables where
    f1: "format_warnings_dd ?Rd {} 80 = Inr out"
    and f2: "DD_PREAMBLE ''2'' (length (examples ?s0)) = Inr preamble"
    and f3: "dd_groups (examples ?s0) 80 = Inr groups"
    and f4: "length tables = length groups"
    and f5: "out = [preamble, join [newline, newline] (map (join [newline]) tables)]"
    and f6: "\<And>i j. i < length groups \<Longrightarrow> j < length (examples ?s0) \<Longrightarrow>
               tables ! i ! (3 + j) =
                   borders (Suc i) (length groups)
                     (join COLSEP
                        (map (\<lambda>c. if no_values (examples ?s0 ! j) (col_name c)
                                  then replicate (col_w c) (CHR '' '')
                                  else center (col_cells c ! j) (col_w c))
                           (groups ! i)))"
    and f7: "\<And>i. i < length groups \<Longrightarrow> length (tables ! i) = length (examples ?s0) + 4"
    by blast
  have P: "preamble = ''Found 2 exact duplicate examples, 3 of which are shown below.''"
    using f2 by (simp add: DD_PREAMBLE_def str_eval num_eval)
  have G: "groups = [[\<lparr>col_name = ''age'', col_w = Suc (Suc (Suc 0)), col_cells = [[], ''1.5'', []]\<rparr>,
                      \<lparr>col_name = ''n'', col_w = Suc (Suc 0), col_cells = [''5L'', [], []]\<rparr>]]"
    using f3 by (auto simp: dd_eval str_eval fmt_eval num_eval)
  have r0: "tables ! 0 ! 3 = ''|     | 5L |''"
    using f6 [of 0 0] by (simp add: G no_values_def feature_vals_def borders_def COLSEP_def str_eval)
  have r1: "tables ! 0 ! 4 = ''| 1.5 |    |''"
    using f6 [of 0 1] by (simp add: G no_values_def feature_vals_def borders_def COLSEP_def str_eval)
  have r2: "tables ! 0 ! 5 = ''|     |    |''"
    using f6 [of 0 2] by (simp add: G no_values_def feature_vals_def borders_def COLSEP_def str_eval)
  have l7: "length (tables ! 0) = 7"
    using f7 [of 0] by (simp add: G)
  have l1: "length tables = 1" using f4 by (simp add: G)
  have c3: "\<exists>tables. format_warnings_dd ?Rd {} 80
          = Inr [''Found 2 exact duplicate examples, 3 of which are shown below.'',
                 join [newline, newline] (map (join [newline]) tables)]
        \<and> length tables = 1 \<and> length (tables ! 0) = 7
        \<and> tables ! 0 ! 3 = ''|     | 5L |''
        \<and> tables ! 0 ! 4 = ''| 1.5 |    |''
        \<and> tables ! 0 ! 5 = ''|     |    |''"
    using f1 f5 P l1 l7 r0 r1 r2 by blast
  have l: "warning_lines llo_line {} (zip [''a:mean''] [?sa])
      = Inr [''* a:mean: 25% had length 1 to 2 but 75% had 3.'']"
    by (simp add: llo_line_def bucket_pct_def bucket_bound_def PCT_FMT_def ULL_WFMT_def
        str_eval fmt_eval num_eval)
  have d: "warning_lines dus_line {} (zip [''a:mean''] [?sa])
      = Inr [''* a:mean: x occurred 25% of the time'']"
    by (simp add: dus_line_def usd_wstr_def usd_pct_str_def USD_WFMT_def PCT_FMT_def
        str_eval fmt_eval num_eval)
  have o: "warning_lines don_line {} (zip [''a:mean''] [?sa])
      = Inr [''* a:mean: min value of 1'']"
    by (simp add: don_line_def getattr_def tdd_wstr_def to_float_def TDD_WFMT_def
        str_eval fmt_eval num_eval)
  have n: "nfnr_lines {} (zip [''a:mean''] [?sa]) = Inr [''* a had mean = 1.5'']"
    by (simp add: nfnr_line_def nfnr_stat_warning_def getattr_def NFNR_STATFMT_def
        NFNR_WFMT_def format_g_1_5 str_eval fmt_eval)
  have c4: "format_warnings_llo
         \<lparr>warnings = [''a:mean'', ''b:mean''], lint_samples = [?sa, ?E]\<rparr> {} 80 = Inl IndexError"
    using T [THEN conjunct2, THEN conjunct2, THEN conjunct2, THEN conjunct1] l by simp
  have c5: "format_warnings_dus
         \<lparr>warnings = [''a:mean'', ''b:mean''], lint_samples = [?sa, ?E]\<rparr> {} 80 = Inl IndexError"
    using T [THEN conjunct2, THEN conjunct2, THEN conjunct2, THEN conjunct2, THEN conjunct1] d
    by simp
  have c6: "format_warnings_don
         \<lparr>warnings = [''a:mean'', ''b:mean''], lint_samples = [?sa, ?E]\<rparr> {} 80 = Inl IndexError"
    using T [THEN conjunct2, THEN conjunct2, THEN conjunct2, THEN conjunct2, THEN conjunct2,
        THEN conjunct1] o
    by simp
  have c7: "format_warnings_nfnr
         \<lparr>warnings = [''a:mean'', ''b:mean''], lint_samples = [?sa, ?sa, ?E]\<rparr> {} 80
       = Inl IndexError"
    using T [THEN conjunct2, THEN conjunct2, THEN conjunct2, THEN conjunct2, THEN conjunct2,
        THEN conjunct2] n
    by simp
  from c1 c2 c3 c4 c5 c6 c7 show ?thesis by blast
qed

end
